theory Spec2Isabelle
  imports Complex_Main "HOL-Library.AList" "HOL-Library.Multiset" "HOL-Library.Char_ord" "HOL-Library.List_Lexorder"
begin

section \<open>Numbers, errors and small Python idioms\<close>

text \<open>
  The Python sources compute with \<open>float\<close>. The embedding computes with exact rationals
  (\<^typ>\<open>rat\<close>): every sum, product and quotient below is the source's expression read
  over the rationals. Binary representation error is not modelled, with two exceptions
  where it decides the outcome for ordinary inputs.

  \<^item> \<open>round(x, n)\<close> gives the decimal with \<open>n\<close> places nearest to the float. When the
    exact value lies halfway between two such decimals (500.025 to two places), the float
    lies just below or just above the halfway point, or on it (then Python rounds half to
    even); which one depends on the binary representation. The direction at a halfway
    point is therefore left open: \<open>float_tie_up\<close> is a function about which nothing is
    known, and no theorem depends on its values.
  \<^item> A comparison of two computed floats whose exact values are equal can go either way
    (\<open>20.4 * 1.05\<close> is a float just below 21.42). \<open>float_equal_case\<close> is the
    outcome in that case, about which again nothing is known.

  A Python exception is a value of \<open>py_error\<close> on the left of a sum.
\<close>

datatype py_error =
  ZeroDivisionError | IndexError | KeyError | ValueError | CancelledError | OtherError string

definition float_tie_up :: "rat \<Rightarrow> bool" where
  "float_tie_up = undefined"

definition round_nearest :: "rat \<Rightarrow> int" where
  "round_nearest x =
     (let f = \<lfloor>x\<rfloor>; d = x - of_int f
      in if d < 1 / 2 then f
         else if 1 / 2 < d then f + 1
         else if float_tie_up x then f + 1 else f)"

definition float_equal_case :: "rat \<Rightarrow> rat \<Rightarrow> bool" where
  "float_equal_case = undefined"

text \<open>\<open>a <= b\<close> and \<open>a < b\<close> on computed floats with the exact values \<open>a\<close>, \<open>b\<close>.\<close>

definition float_le :: "rat \<Rightarrow> rat \<Rightarrow> bool" where
  "float_le a b = (a < b \<or> (a = b \<and> float_equal_case a b))"

definition float_lt :: "rat \<Rightarrow> rat \<Rightarrow> bool" where
  "float_lt a b = (a < b \<or> (a = b \<and> \<not> float_equal_case b a))"

definition py_round :: "rat \<Rightarrow> nat \<Rightarrow> rat" where
  "py_round x nd = of_int (round_nearest (x * 10 ^ nd)) / 10 ^ nd"

text \<open>\<open>min(xs)\<close> and \<open>max(xs)\<close> of a non-empty list; the callers test emptiness first.\<close>

fun py_min :: "rat list \<Rightarrow> rat" where
  "py_min [] = 0"
| "py_min (x # xs) = fold min xs x"

fun py_max :: "rat list \<Rightarrow> rat" where
  "py_max [] = 0"
| "py_max (x # xs) = fold max xs x"

section \<open>Price analysis: \<open>src/tools/price_tools.py\<close>\<close>

text \<open>
  One row of \<open>get_price_history\<close>: \<open>{"price": float(h.price), "date": isoformat}\<close>,
  newest first.
\<close>

record price_entry =
  pe_price :: rat
  pe_date :: string

text \<open>
  Chart payloads. \<open>ChartJs\<close> is what \<open>_prepare_chart_data\<close> builds (labels, the price
  series, the constant average line and the three marker values; the styling constants of
  the source carry no data and are left out). \<open>SeriesChart\<close> is the two-key dictionary
  \<open>{'labels': ..., 'data': ...}\<close> the orchestrator builds.
\<close>

datatype chart =
    ChartJs "string list" "rat list" "rat list" rat rat rat
  | SeriesChart "string list" "rat list"

definition prepare_chart_data ::
    "price_entry list \<Rightarrow> rat \<Rightarrow> rat \<Rightarrow> rat \<Rightarrow> rat \<Rightarrow> chart" where
  "prepare_chart_data history current_price avg_price min_price max_price =
     (let sorted_history = sort_key pe_date history;
          labels = map (\<lambda>h. take 10 (pe_date h)) sorted_history;
          prices = map pe_price sorted_history;
          avg_line = replicate (length labels) avg_price
      in ChartJs labels prices avg_line current_price min_price max_price)"

text \<open>
  The dictionary returned by \<open>calculate_price_trend\<close>. A key the source leaves out is
  \<open>None\<close>: the empty-history dictionary has only \<open>trend\<close>, \<open>price_change\<close>,
  \<open>recommendation\<close> and \<open>error\<close>.
\<close>

record trend_data =
  td_current_price :: "rat option"
  td_average_price :: "rat option"
  td_min_price :: "rat option"
  td_max_price :: "rat option"
  td_trend :: string
  td_price_change_pct :: "rat option"
  td_price_change :: "rat option"
  td_recommendation :: string
  td_data_points :: "nat option"
  td_chart_data :: "chart option"
  td_error :: "string option"

definition price_trend_of :: "rat list \<Rightarrow> string" where
  "price_trend_of prices =
     (if 14 \<le> length prices then
        (let recent_avg = sum_list (take 7 prices) / of_nat (min 7 (length prices));
             older_avg = sum_list (take 7 (drop 7 prices))
                          / of_nat (max 1 (min 7 (length (take 7 (drop 7 prices)))))
         in if float_lt recent_avg (older_avg * (95 / 100)) then ''decreasing''
            else if float_lt (older_avg * (105 / 100)) recent_avg then ''increasing''
            else ''stable'')
      else ''insufficient_data'')"

definition price_recommendation :: "rat \<Rightarrow> rat \<Rightarrow> rat \<Rightarrow> string \<Rightarrow> string" where
  "price_recommendation current_price min_price avg_price trend =
     (if float_le current_price (min_price * (105 / 100)) then ''buy_now''
      else if trend = ''decreasing'' then ''wait''
      else if float_le avg_price current_price then ''wait''
      else ''good_time'')"

text \<open>
  \<open>calculate_price_trend(db, product_id)\<close>. The two database reads are the arguments:
  \<open>history\<close> is the 30-day history, \<open>product_price\<close> the price of the product row
  (\<open>None\<close> when the row is missing, where the source takes 0). The percentage change
  divides by \<open>max_price\<close> before the recommendation is computed; Python raises
  \<open>ZeroDivisionError\<close> there when \<open>max_price\<close> is zero.
\<close>

definition calculate_price_trend ::
    "price_entry list \<Rightarrow> rat option \<Rightarrow> py_error + trend_data" where
  "calculate_price_trend history product_price =
     (if history = [] then
        Inr \<lparr> td_current_price = None, td_average_price = None, td_min_price = None,
              td_max_price = None, td_trend = ''unknown'', td_price_change_pct = None,
              td_price_change = Some 0, td_recommendation = ''wait'',
              td_data_points = None, td_chart_data = None,
              td_error = Some ''No price history available'' \<rparr>
      else
        (let current_price = (case product_price of Some p \<Rightarrow> p | None \<Rightarrow> 0);
             prices = map pe_price history;
             avg_price = sum_list prices / of_nat (length prices);
             min_price = py_min prices;
             max_price = py_max prices;
             trend = price_trend_of prices
         in if max_price = 0 then Inl ZeroDivisionError
            else
              (let price_change_pct = ((current_price - max_price) / max_price) * 100;
                   recommendation = price_recommendation current_price min_price avg_price trend;
                   chart_data = prepare_chart_data history current_price avg_price
                                  min_price max_price
               in Inr \<lparr> td_current_price = Some current_price,
                          td_average_price = Some (py_round avg_price 2),
                          td_min_price = Some min_price,
                          td_max_price = Some max_price,
                          td_trend = trend,
                          td_price_change_pct = Some (py_round price_change_pct 2),
                          td_price_change = None,
                          td_recommendation = recommendation,
                          td_data_points = Some (length history),
                          td_chart_data = Some chart_data,
                          td_error = None \<rparr>)))"


section \<open>Hybrid ranking: \<open>ProductSearchAgent._combine_and_rank\<close>\<close>

text \<open>
  A result dictionary of either search leg. Semantic hits carry \<open>similarity_score\<close>,
  traditional hits carry \<open>search_score\<close> (always 0.3); the descriptive keys (name,
  brand, price, ...) play no part in the ranking and are summarised by the name.
\<close>

record search_hit =
  sh_product_id :: int
  sh_name :: string
  sh_similarity_score :: "rat option"
  sh_search_score :: "rat option"

text \<open>
  The dictionary \<open>combined\<close> maps a product id to a copy of a hit with its
  \<open>final_score\<close>; it is an association list in insertion order, which is the order of
  \<open>combined.values()\<close>. Assigning to a key that is present keeps its position
  (\<open>AList.update\<close>).
\<close>

type_synonym scored_hit = "search_hit \<times> rat"

definition add_semantic :: "search_hit \<Rightarrow> (int \<times> scored_hit) list \<Rightarrow> (int \<times> scored_hit) list" where
  "add_semantic result combined =
     AList.update (sh_product_id result)
       (result, (case sh_similarity_score result of Some s \<Rightarrow> s | None \<Rightarrow> 1 / 2) * (7 / 10))
       combined"

definition add_traditional :: "search_hit \<Rightarrow> (int \<times> scored_hit) list \<Rightarrow> (int \<times> scored_hit) list" where
  "add_traditional result combined =
     (case map_of combined (sh_product_id result) of
        Some (hit, final_score) \<Rightarrow>
          AList.update (sh_product_id result) (hit, final_score + 3 / 10) combined
      | None \<Rightarrow> AList.update (sh_product_id result) (result, 3 / 10) combined)"

definition combined_dict :: "search_hit list \<Rightarrow> search_hit list \<Rightarrow> (int \<times> scored_hit) list" where
  "combined_dict semantic_results traditional_results =
     fold add_traditional traditional_results (fold add_semantic semantic_results [])"

text \<open>\<open>xs[:n]\<close> for a Python integer \<open>n\<close>: a negative \<open>n\<close> drops from the end.\<close>

definition py_prefix :: "int \<Rightarrow> 'a list \<Rightarrow> 'a list" where
  "py_prefix n xs = (if 0 \<le> n then take (nat n) xs else take (length xs - nat (- n)) xs)"

text \<open>
  \<open>sorted(..., key=final_score, reverse=True)\<close> is stable: hits of equal score keep
  their order in \<open>combined.values()\<close>. A stable ascending sort on the negated score is
  the same list.
\<close>

definition combine_and_rank :: "search_hit list \<Rightarrow> search_hit list \<Rightarrow> int \<Rightarrow> scored_hit list" where
  "combine_and_rank semantic_results traditional_results limit =
     py_prefix limit
       (sort_key (\<lambda>x. - snd x) (map snd (combined_dict semantic_results traditional_results)))"

text \<open>Example legs: products 1 and 2 from the semantic leg, 3 and 1 from the traditional leg.\<close>

definition ex_sem :: "search_hit list" where
  "ex_sem = [\<lparr>sh_product_id = 1, sh_name = ''a'', sh_similarity_score = Some (8/10), sh_search_score = None\<rparr>,
   \<lparr>sh_product_id = 2, sh_name = ''b'', sh_similarity_score = Some (9/10), sh_search_score = None\<rparr>]"
definition ex_trad :: "search_hit list" where
  "ex_trad =   [\<lparr>sh_product_id = 3, sh_name = ''c'', sh_similarity_score = None, sh_search_score = Some (3/10)\<rparr>,
   \<lparr>sh_product_id = 1, sh_name = ''a'', sh_similarity_score = None, sh_search_score = Some (3/10)\<rparr>]"

section \<open>Buy plan: \<open>src/tools/buyplan_tools.py\<close>\<close>

subsection \<open>EMI schedules\<close>

text \<open>
  One entry of \<open>calculate_emi_plans\<close> or \<open>calculate_no_cost_emi\<close>. The key
  \<open>total_payable\<close> exists on no-cost plans only.
\<close>

record emi_plan =
  tenure_months :: int
  emi_per_month :: rat
  total_amount :: rat
  total_interest :: rat
  interest_rate_annual :: rat
  processing_fee :: rat
  plan_type :: string
  total_payable :: "rat option"

text \<open>\<open>interest_rates.get(months, 15.0)\<close>.\<close>

definition interest_rates :: "int \<Rightarrow> rat" where
  "interest_rates months =
     (if months = 3 then 12 else if months = 6 then 13 else if months = 9 then 14
      else if months = 12 then 15 else if months = 18 then 16 else if months = 24 then 17
      else 15)"

definition default_tenures :: "int list" where
  "default_tenures = [3, 6, 9, 12, 18, 24]"

definition default_no_cost_tenures :: "int list" where
  "default_no_cost_tenures = [3, 6, 9, 12]"

text \<open>
  The body of the loop of \<open>calculate_emi_plans\<close> for one tenure. Both quotients raise
  \<open>ZeroDivisionError\<close> on a zero divisor.
\<close>

definition regular_emi_plan :: "rat \<Rightarrow> int \<Rightarrow> py_error + emi_plan" where
  "regular_emi_plan price months =
     (let annual_rate = interest_rates months;
          monthly_rate = annual_rate / 12 / 100
      in if (if 0 < monthly_rate then power_int (1 + monthly_rate) months - 1 = 0
             else months = 0)
         then Inl ZeroDivisionError
         else
           (let emi_amount =
                  (if 0 < monthly_rate
                   then (price * monthly_rate * power_int (1 + monthly_rate) months)
                          / (power_int (1 + monthly_rate) months - 1)
                   else price / of_int months);
                total = emi_amount * of_int months;
                interest = total - price
            in Inr \<lparr> tenure_months = months,
                       emi_per_month = py_round emi_amount 2,
                       total_amount = py_round total 2,
                       total_interest = py_round interest 2,
                       interest_rate_annual = annual_rate,
                       processing_fee = 199,
                       plan_type = ''regular_emi'',
                       total_payable = None \<rparr>))"

definition no_cost_emi_plan :: "rat \<Rightarrow> int \<Rightarrow> py_error + emi_plan" where
  "no_cost_emi_plan price months =
     (if months = 0 then Inl ZeroDivisionError
      else
        (let emi_amount = price / of_int months;
             fee = 199
         in Inr \<lparr> tenure_months = months,
                    emi_per_month = py_round emi_amount 2,
                    total_amount = py_round price 2,
                    total_interest = 0,
                    interest_rate_annual = 0,
                    processing_fee = fee,
                    plan_type = ''no_cost_emi'',
                    total_payable = Some (py_round (price + fee) 2) \<rparr>))"

text \<open>
  A \<open>for\<close> loop that appends one plan per tenure inside \<open>try\<close>: the first exception
  leaves the loop, and the \<open>except\<close> clause returns the empty list.
\<close>

fun plans_loop :: "(int \<Rightarrow> py_error + emi_plan) \<Rightarrow> int list \<Rightarrow> py_error + emi_plan list" where
  "plans_loop f [] = Inr []"
| "plans_loop f (months # rest) =
     (case f months of
        Inl e \<Rightarrow> Inl e
      | Inr plan \<Rightarrow> (case plans_loop f rest of Inl e \<Rightarrow> Inl e | Inr plans \<Rightarrow> Inr (plan # plans)))"

definition calculate_emi_plans :: "rat \<Rightarrow> int list \<Rightarrow> emi_plan list" where
  "calculate_emi_plans price tenures =
     (case plans_loop (regular_emi_plan price) tenures of Inl e \<Rightarrow> [] | Inr plans \<Rightarrow> plans)"

definition calculate_no_cost_emi :: "rat \<Rightarrow> int list \<Rightarrow> emi_plan list" where
  "calculate_no_cost_emi price tenures =
     (case plans_loop (no_cost_emi_plan price) tenures of Inl e \<Rightarrow> [] | Inr plans \<Rightarrow> plans)"

text \<open>
  The annuity formula of the specification, \<open>P r (1+r)^n / ((1+r)^n - 1)\<close>, with which
  the instalment computed by \<open>regular_emi_plan\<close> is compared.
\<close>

definition annuity :: "rat \<Rightarrow> rat \<Rightarrow> nat \<Rightarrow> rat" where
  "annuity P r n = (P * r * (1 + r) ^ n) / ((1 + r) ^ n - 1)"

subsection \<open>Card offers and payment options\<close>

text \<open>The columns of \<open>Product\<close> and \<open>CardOffer\<close> that the buy-plan code reads.\<close>

record product_row =
  pr_id :: int
  pr_name :: string
  pr_price :: rat
  pr_mrp :: "rat option"

record card_offer_row =
  co_id :: int
  co_bank_name :: string
  co_offer_type :: "string option"
  co_discount_amount :: "rat option"
  co_discount_percentage :: "rat option"
  co_cashback_amount :: "rat option"
  co_min_transaction_amount :: "rat option"
  co_emi_tenure :: "string option"
  co_offer_description :: "string option"
  co_valid_from :: "string option"
  co_valid_till :: "string option"

text \<open>
  \<open>float(x) if x else None\<close>: a missing value and a zero are both falsy.
\<close>

definition float_if_truthy :: "rat option \<Rightarrow> rat option" where
  "float_if_truthy x = (case x of None \<Rightarrow> None | Some v \<Rightarrow> if v = 0 then None else Some v)"

text \<open>
  \<open>s.isdigit()\<close> and \<open>int(s)\<close>. A character of a \<open>string\<close> stands for the code point
  of the same number, so the strings of the model are the Python strings over the code
  points below 256. Among these, \<open>str.isdigit\<close> accepts the ten ASCII digits and the
  superscript digits U+00B2, U+00B3 and U+00B9; \<open>int\<close> accepts only the ASCII digits
  and raises \<open>ValueError\<close> on a string that holds a superscript digit.
\<close>

definition is_ascii_digit :: "char \<Rightarrow> bool" where
  "is_ascii_digit c = (48 \<le> (of_char c :: nat) \<and> (of_char c :: nat) \<le> 57)"

definition is_superscript_digit :: "char \<Rightarrow> bool" where
  "is_superscript_digit c =
     ((of_char c :: nat) = 178 \<or> (of_char c :: nat) = 179 \<or> (of_char c :: nat) = 185)"

definition py_isdigit :: "string \<Rightarrow> bool" where
  "py_isdigit s = (s \<noteq> [] \<and> list_all (\<lambda>c. is_ascii_digit c \<or> is_superscript_digit c) s)"

text \<open>\<open>int(s)\<close> for a string on which \<open>isdigit\<close> holds.\<close>

definition py_int :: "string \<Rightarrow> py_error + nat" where
  "py_int s =
     (if list_all is_ascii_digit s
      then Inr (foldl (\<lambda>acc c. acc * 10 + ((of_char c :: nat) - 48)) 0 s)
      else Inl ValueError)"

text \<open>\<open>needle in haystack\<close> on strings.\<close>

fun py_contains :: "string \<Rightarrow> string \<Rightarrow> bool" where
  "py_contains needle [] = (needle = [])"
| "py_contains needle (c # cs) =
     (take (length needle) (c # cs) = needle \<or> py_contains needle cs)"

text \<open>The dictionary \<open>offer_data\<close> that \<open>get_card_offers\<close> builds for one row.\<close>

record offer =
  o_id :: int
  o_bank_name :: string
  o_offer_type :: "string option"
  o_discount_percent :: "rat option"
  o_discount_amount :: "rat option"
  o_cashback_amount :: "rat option"
  o_emi_months :: "nat option"
  o_emi_amount :: "rat option"
  o_min_purchase :: "rat option"
  o_max_discount :: "rat option"
  o_valid_from :: "string option"
  o_valid_till :: "string option"
  o_terms :: "string option"

text \<open>
  \<open>int(offer.emi_tenure) if offer.emi_tenure and offer.emi_tenure.isdigit() else None\<close>.
\<close>

definition emi_months_of :: "string option \<Rightarrow> py_error + nat option" where
  "emi_months_of tenure =
     (case tenure of
        None \<Rightarrow> Inr None
      | Some s \<Rightarrow>
          if s \<noteq> [] \<and> py_isdigit s
          then (case py_int s of Inl e \<Rightarrow> Inl e | Inr n \<Rightarrow> Inr (Some n))
          else Inr None)"

definition format_offer :: "card_offer_row \<Rightarrow> py_error + offer" where
  "format_offer row =
     (case emi_months_of (co_emi_tenure row) of
        Inl e \<Rightarrow> Inl e
      | Inr months \<Rightarrow>
          Inr \<lparr> o_id = co_id row,
                o_bank_name = co_bank_name row,
                o_offer_type = co_offer_type row,
                o_discount_percent = float_if_truthy (co_discount_percentage row),
                o_discount_amount = float_if_truthy (co_discount_amount row),
                o_cashback_amount = float_if_truthy (co_cashback_amount row),
                o_emi_months = months,
                o_emi_amount = None,
                o_min_purchase = float_if_truthy (co_min_transaction_amount row),
                o_max_discount = None,
                o_valid_from = co_valid_from row,
                o_valid_till = co_valid_till row,
                o_terms = co_offer_description row \<rparr>)"

text \<open>
  The loop of \<open>get_card_offers\<close> runs inside \<open>try\<close>: the first row whose tenure makes
  \<open>int\<close> raise leaves the loop.
\<close>

fun offers_loop :: "card_offer_row list \<Rightarrow> py_error + offer list" where
  "offers_loop [] = Inr []"
| "offers_loop (row # rest) =
     (case format_offer row of
        Inl e \<Rightarrow> Inl e
      | Inr offer_data \<Rightarrow>
          (case offers_loop rest of Inl e \<Rightarrow> Inl e | Inr offers \<Rightarrow> Inr (offer_data # offers)))"

text \<open>
  \<open>get_card_offers\<close> for a product that exists; \<open>rows\<close> are its \<open>CardOffer\<close> rows.
  (For a missing product, and for no rows, the source returns the empty list.) The
  \<open>except\<close> clause returns the empty list, whatever rows were formatted before.
\<close>

definition get_card_offers :: "card_offer_row list \<Rightarrow> offer list" where
  "get_card_offers rows = (case offers_loop rows of Inl e \<Rightarrow> [] | Inr offers \<Rightarrow> offers)"

text \<open>A payment option dictionary; a key that a kind of option does not have is \<open>None\<close>.\<close>

record payment_option =
  option_name :: string
  payment_method :: string
  payment_type :: string
  po_final_price :: "rat option"
  po_discount_from_mrp :: rat
  po_additional_savings :: "rat option"
  po_total_savings :: rat
  po_savings_percent :: rat
  po_cashback_amount :: "rat option"
  po_effective_price :: "rat option"
  po_cashback_credit_days :: "nat option"
  po_emi_per_month :: "rat option"
  po_tenure_months :: "nat option"
  po_total_amount :: "rat option"
  po_processing_fee :: "rat option"
  po_total_interest :: "rat option"
  po_offer_details :: "string option"

definition full_price_option :: "rat \<Rightarrow> rat \<Rightarrow> payment_option" where
  "full_price_option product_price product_mrp =
     (let base_discount = (if product_mrp \<noteq> 0 then product_mrp - product_price else 0)
      in \<lparr> option_name = ''Full Price Payment'',
            payment_method = ''Any Card/Cash'',
            payment_type = ''one_time'',
            po_final_price = Some product_price,
            po_discount_from_mrp = base_discount,
            po_additional_savings = Some 0,
            po_total_savings = base_discount,
            po_savings_percent =
              (if product_mrp \<noteq> 0 then py_round (base_discount / product_mrp * 100) 2 else 0),
            po_cashback_amount = None, po_effective_price = None,
            po_cashback_credit_days = None,
            po_emi_per_month = None, po_tenure_months = None, po_total_amount = None,
            po_processing_fee = None, po_total_interest = None,
            po_offer_details = None \<rparr>)"

text \<open>
  The body of the loop over the offers in \<open>calculate_total_savings\<close>: the options that
  one offer appends (none or one).
\<close>

definition offer_options :: "rat \<Rightarrow> rat \<Rightarrow> offer \<Rightarrow> payment_option list" where
  "offer_options product_price product_mrp offer =
     (let base_discount = (if product_mrp \<noteq> 0 then product_mrp - product_price else 0);
          pct = (\<lambda>s. if product_mrp \<noteq> 0 then py_round (s / product_mrp * 100) 2 else 0)
      in if o_offer_type offer = Some ''instant_discount'' then
           (let additional_savings =
                  (case o_discount_amount offer of
                     Some a \<Rightarrow> a
                   | None \<Rightarrow>
                       (case o_discount_percent offer of
                          Some p \<Rightarrow>
                            (case o_max_discount offer of
                               Some cap \<Rightarrow> min (product_price * (p / 100)) cap
                             | None \<Rightarrow> product_price * (p / 100))
                        | None \<Rightarrow> 0));
                final_price = product_price - additional_savings
            in [\<lparr> option_name = o_bank_name offer @ '' Instant Discount'',
                   payment_method = o_bank_name offer @ '' Card'',
                   payment_type = ''one_time'',
                   po_final_price = Some (py_round final_price 2),
                   po_discount_from_mrp = base_discount,
                   po_additional_savings = Some (py_round additional_savings 2),
                   po_total_savings = py_round (base_discount + additional_savings) 2,
                   po_savings_percent = pct (base_discount + additional_savings),
                   po_cashback_amount = None, po_effective_price = None,
                   po_cashback_credit_days = None,
                   po_emi_per_month = None, po_tenure_months = None, po_total_amount = None,
                   po_processing_fee = None, po_total_interest = None,
                   po_offer_details = o_terms offer \<rparr>])
         else if o_offer_type offer = Some ''cashback'' then
           (let cashback = (case o_cashback_amount offer of Some c \<Rightarrow> c | None \<Rightarrow> 0)
            in [\<lparr> option_name = o_bank_name offer @ '' Cashback'',
                   payment_method = o_bank_name offer @ '' Card'',
                   payment_type = ''cashback'',
                   po_final_price = Some product_price,
                   po_discount_from_mrp = base_discount,
                   po_additional_savings = Some (py_round cashback 2),
                   po_total_savings = py_round (base_discount + cashback) 2,
                   po_savings_percent = pct (base_discount + cashback),
                   po_cashback_amount = Some (py_round cashback 2),
                   po_effective_price = Some (py_round (product_price - cashback) 2),
                   po_cashback_credit_days = Some 90,
                   po_emi_per_month = None, po_tenure_months = None, po_total_amount = None,
                   po_processing_fee = None, po_total_interest = None,
                   po_offer_details = o_terms offer \<rparr>])
         else if o_offer_type offer = Some ''no_cost_emi'' then
           (case (o_emi_months offer, o_emi_amount offer) of
              (Some months, Some amount) \<Rightarrow>
                if months \<noteq> 0 \<and> amount \<noteq> 0 then
                  [\<lparr> option_name = o_bank_name offer @ '' No Cost EMI'',
                     payment_method = o_bank_name offer @ '' Card'',
                     payment_type = ''emi'',
                     po_final_price = None,
                     po_discount_from_mrp = base_discount,
                     po_additional_savings = None,
                     po_total_savings = base_discount,
                     po_savings_percent = pct base_discount,
                     po_cashback_amount = None, po_effective_price = None,
                     po_cashback_credit_days = None,
                     po_emi_per_month = Some (py_round amount 2),
                     po_tenure_months = Some months,
                     po_total_amount = Some (py_round (amount * of_nat months) 2),
                     po_processing_fee = Some 199, po_total_interest = Some 0,
                     po_offer_details = o_terms offer \<rparr>]
                else []
            | _ \<Rightarrow> [])
         else [])"

text \<open>
  \<open>calculate_total_savings\<close>: the full-price option, then the options of the offers in
  order, sorted by \<open>total_savings\<close>, highest first (a stable sort).
\<close>

definition calculate_total_savings :: "rat \<Rightarrow> rat \<Rightarrow> offer list \<Rightarrow> payment_option list" where
  "calculate_total_savings product_price product_mrp offers =
     sort_key (\<lambda>x. - po_total_savings x)
       (full_price_option product_price product_mrp
          # concat (map (offer_options product_price product_mrp) offers))"

subsection \<open>The best options: \<open>compare_payment_options\<close>\<close>

record best_options =
  best_instant_savings :: "payment_option option"
  best_cashback :: "payment_option option"
  best_emi :: "payment_option option"

text \<open>
  One pass of the loop \<open>for option in payment_options\<close>. Reading \<open>emi_per_month\<close>
  from an option that lacks the key raises \<open>KeyError\<close>.
\<close>

definition best_step :: "payment_option \<Rightarrow> best_options \<Rightarrow> py_error + best_options" where
  "best_step option best =
     (if payment_type option = ''one_time'' \<and> py_contains ''Instant Discount'' (option_name option)
      then
        (case best_instant_savings best of
           None \<Rightarrow> Inr (best\<lparr>best_instant_savings := Some option\<rparr>)
         | Some b \<Rightarrow>
             if po_total_savings b < po_total_savings option
             then Inr (best\<lparr>best_instant_savings := Some option\<rparr>) else Inr best)
      else if payment_type option = ''cashback'' then
        (case best_cashback best of
           None \<Rightarrow> Inr (best\<lparr>best_cashback := Some option\<rparr>)
         | Some b \<Rightarrow>
             if po_total_savings b < po_total_savings option
             then Inr (best\<lparr>best_cashback := Some option\<rparr>) else Inr best)
      else if payment_type option = ''emi'' then
        (case best_emi best of
           None \<Rightarrow> Inr (best\<lparr>best_emi := Some option\<rparr>)
         | Some b \<Rightarrow>
             (case (po_emi_per_month option, po_emi_per_month b) of
                (Some x, Some y) \<Rightarrow>
                  if x < y then Inr (best\<lparr>best_emi := Some option\<rparr>) else Inr best
              | _ \<Rightarrow> Inl KeyError))
      else Inr best)"

fun find_best :: "payment_option list \<Rightarrow> best_options \<Rightarrow> py_error + best_options" where
  "find_best [] best = Inr best"
| "find_best (option # rest) best =
     (case best_step option best of Inl e \<Rightarrow> Inl e | Inr best' \<Rightarrow> find_best rest best')"

record payment_comparison =
  pc_product_id :: int
  pc_product_name :: string
  pc_product_price :: rat
  pc_product_mrp :: rat
  pc_payment_options :: "payment_option list"
  pc_regular_emi_plans :: "emi_plan list"
  pc_no_cost_emi_plans :: "emi_plan list"
  pc_recommendations :: best_options

text \<open>
  \<open>compare_payment_options(product_id, db)\<close>; the database is the product row (or
  \<open>None\<close>) and the card offer rows of the product. The result is the success dictionary
  on the right, or the text of \<open>{"success": False, "error": ...}\<close> on the left.
\<close>

definition mrp_or_price :: "product_row \<Rightarrow> rat" where
  "mrp_or_price product =
     (case pr_mrp product of None \<Rightarrow> pr_price product
      | Some m \<Rightarrow> if m = 0 then pr_price product else m)"

definition compare_payment_options ::
    "int \<Rightarrow> product_row option \<Rightarrow> card_offer_row list \<Rightarrow> string + payment_comparison" where
  "compare_payment_options product_id product rows =
     (case product of
        None \<Rightarrow> Inl ''Product not found''
      | Some p \<Rightarrow>
          (let card_offers = get_card_offers rows;
               regular_emi = calculate_emi_plans (pr_price p) default_tenures;
               no_cost_emi = calculate_no_cost_emi (pr_price p) default_no_cost_tenures;
               payment_options = calculate_total_savings (pr_price p) (mrp_or_price p) card_offers
           in case find_best payment_options
                     \<lparr> best_instant_savings = None, best_cashback = None, best_emi = None \<rparr> of
                Inl e \<Rightarrow> Inl ''emi_per_month''
              | Inr best \<Rightarrow>
                  Inr \<lparr> pc_product_id = product_id,
                        pc_product_name = pr_name p,
                        pc_product_price = pr_price p,
                        pc_product_mrp = mrp_or_price p,
                        pc_payment_options = payment_options,
                        pc_regular_emi_plans = regular_emi,
                        pc_no_cost_emi_plans = no_cost_emi,
                        pc_recommendations = best \<rparr>))"

subsection \<open>The purchase plan: \<open>BuyPlanOptimizerAgent.create_purchase_plan\<close>\<close>

record purchase_plan =
  pp_product_id :: int
  pp_product_name :: string
  pp_product_price :: rat
  pp_product_mrp :: rat
  pp_emi_eligible :: bool
  pp_payment_options :: "payment_option list"
  pp_regular_emi_plans :: "emi_plan list"
  pp_no_cost_emi_plans :: "emi_plan list"
  pp_best_instant_savings :: "payment_option option"
  pp_best_cashback :: "payment_option option"
  pp_best_emi :: "payment_option option"
  pp_ai_recommendation :: string
  pp_summary :: string

text \<open>
  The texts of \<open>_generate_ai_recommendation\<close> (the language model or its fixed
  fallback sentence) and \<open>_generate_summary\<close> are arguments; both methods catch every
  exception and return a string. The EMI threshold is \<open>get_emi_eligibility\<close>'s default.
\<close>

definition create_purchase_plan ::
    "int \<Rightarrow> product_row option \<Rightarrow> card_offer_row list \<Rightarrow> string \<Rightarrow> string
       \<Rightarrow> string + purchase_plan" where
  "create_purchase_plan product_id product rows ai_recommendation summary =
     (case compare_payment_options product_id product rows of
        Inl err \<Rightarrow> Inl err
      | Inr comparison \<Rightarrow>
          (case product of
             None \<Rightarrow> Inl ''Product not found''
           | Some p \<Rightarrow>
               Inr \<lparr> pp_product_id = product_id,
                     pp_product_name = pr_name p,
                     pp_product_price = pr_price p,
                     pp_product_mrp = mrp_or_price p,
                     pp_emi_eligible = (5000 \<le> pr_price p),
                     pp_payment_options = pc_payment_options comparison,
                     pp_regular_emi_plans = pc_regular_emi_plans comparison,
                     pp_no_cost_emi_plans = pc_no_cost_emi_plans comparison,
                     pp_best_instant_savings = best_instant_savings (pc_recommendations comparison),
                     pp_best_cashback = best_cashback (pc_recommendations comparison),
                     pp_best_emi = best_emi (pc_recommendations comparison),
                     pp_ai_recommendation = ai_recommendation,
                     pp_summary = summary \<rparr>))"

text \<open>
  An example: a product priced 60000 with one no-cost-EMI card offer of six months.
\<close>

definition ex_product :: product_row where
  "ex_product = \<lparr> pr_id = 7, pr_name = ''Laptop'', pr_price = 60000, pr_mrp = Some 70000 \<rparr>"

definition ex_no_cost_offer :: card_offer_row where
  "ex_no_cost_offer =
     \<lparr> co_id = 1, co_bank_name = ''HDFC'', co_offer_type = Some ''no_cost_emi'',
       co_discount_amount = None, co_discount_percentage = None, co_cashback_amount = None,
       co_min_transaction_amount = Some 5000, co_emi_tenure = Some ''6'',
       co_offer_description = Some ''No Cost EMI for 6 months'',
       co_valid_from = None, co_valid_till = None \<rparr>"

text \<open>The monthly instalment of an EMI option, for comparing two of them.\<close>

definition emi_of :: "payment_option \<Rightarrow> rat" where
  "emi_of opt = (case po_emi_per_month opt of Some x \<Rightarrow> x | None \<Rightarrow> 0)"

section \<open>The cache: \<open>src/utils/cache.py\<close>\<close>

text \<open>
  \<open>SimpleCache\<close>: a dictionary from key to (value, timestamp) and a time to live. The
  clock \<open>datetime.now()\<close> is an argument, in seconds. \<open>get\<close> returns the value of a
  live entry; an expired entry is deleted and \<open>None\<close> returned.
\<close>

record ('k, 'v) simple_cache =
  entries :: "'k \<rightharpoonup> ('v \<times> int)"
  ttl :: int

definition cache_get :: "('k, 'v) simple_cache \<Rightarrow> 'k \<Rightarrow> int \<Rightarrow> 'v option \<times> ('k, 'v) simple_cache" where
  "cache_get c key now =
     (case entries c key of
        Some (value, timestamp) \<Rightarrow>
          if now - timestamp < ttl c then (Some value, c)
          else (None, c\<lparr>entries := (entries c)(key := None)\<rparr>)
      | None \<Rightarrow> (None, c))"

definition cache_set :: "('k, 'v) simple_cache \<Rightarrow> 'k \<Rightarrow> 'v \<Rightarrow> int \<Rightarrow> ('k, 'v) simple_cache" where
  "cache_set c key value now = c\<lparr>entries := (entries c)(key \<mapsto> (value, now))\<rparr>"

section \<open>Review analysis: \<open>review_tools.py\<close> and \<open>review_analyzer_agent.py\<close>\<close>

record review =
  rv_rating :: int
  rv_text :: "string option"
  rv_verified :: bool
  rv_helpful_count :: int

text \<open>
  \<open>get_reviews\<close>: the rows of the product by \<open>helpful_count\<close>, highest first, at most
  \<open>limit\<close> of them.
\<close>

definition get_reviews :: "review list \<Rightarrow> nat \<Rightarrow> review list" where
  "get_reviews rows limit = take limit (sort_key (\<lambda>r. - rv_helpful_count r) rows)"

text \<open>
  \<open>get_review_statistics\<close>. The key \<open>rating_distribution_pct\<close>, the same counts as
  percentages, is read nowhere in the analyzer and is left out.
\<close>

record review_stats =
  total_reviews :: nat
  average_rating :: rat
  rating_distribution :: "int \<rightharpoonup> nat"
  verified_purchases :: nat

definition count_rating :: "review \<Rightarrow> (int \<rightharpoonup> nat) \<Rightarrow> (int \<rightharpoonup> nat)" where
  "count_rating r distribution =
     distribution(rv_rating r \<mapsto> (case distribution (rv_rating r) of Some c \<Rightarrow> c | None \<Rightarrow> 0) + 1)"

definition get_review_statistics :: "review list \<Rightarrow> review_stats" where
  "get_review_statistics rows =
     (if rows = [] then
        \<lparr> total_reviews = 0, average_rating = 0, rating_distribution = Map.empty,
          verified_purchases = 0 \<rparr>
      else
        (let total = length rows;
             avg_rating = of_int (sum_list (map rv_rating rows)) / of_nat total;
             distribution = fold count_rating rows [1 \<mapsto> 0, 2 \<mapsto> 0, 3 \<mapsto> 0, 4 \<mapsto> 0, 5 \<mapsto> 0]
         in \<lparr> total_reviews = total,
               average_rating = py_round avg_rating 2,
               rating_distribution = distribution,
               verified_purchases = length (filter rv_verified rows) \<rparr>))"

text \<open>\<open>_calculate_trust_score\<close>; the three quotients divide by \<open>total_reviews\<close>.\<close>

definition calculate_trust_score :: "review_stats \<Rightarrow> review list \<Rightarrow> py_error + rat" where
  "calculate_trust_score stats reviews =
     (if total_reviews stats = 0 then Inl ZeroDivisionError
      else
        (let score0 = 1 / 2;
             verified_ratio = of_nat (verified_purchases stats) / of_nat (total_reviews stats);
             score1 = score0 + verified_ratio * (3 / 10);
             distribution = rating_distribution stats;
             five_star_ratio = (of_nat (case distribution 5 of Some c \<Rightarrow> c | None \<Rightarrow> 0)
                                 / of_nat (total_reviews stats) :: rat);
             one_star_ratio = (of_nat (case distribution 1 of Some c \<Rightarrow> c | None \<Rightarrow> 0)
                                 / of_nat (total_reviews stats) :: rat);
             score2 = (if five_star_ratio < 7 / 10 \<and> one_star_ratio < 3 / 10 then score1 + 2 / 10
                       else if 9 / 10 < five_star_ratio then score1 - 1 / 10
                       else score1);
             score3 = (if 50 < total_reviews stats then score2 + 1 / 10
                       else if 20 < total_reviews stats then score2 + 5 / 100
                       else score2)
         in Inr (min (max score3 0) 1)))"

text \<open>
  The result dictionary of \<open>analyze_reviews\<close>; a key that is absent is \<open>None\<close>, and an
  absent \<open>success\<close> reads as false wherever it is read. \<open>empty_review\<close> is \<open>{}\<close>.
\<close>

record review_result =
  rr_success :: bool
  rr_product_id :: "int option"
  rr_message :: "string option"
  rr_error :: "string option"
  rr_statistics :: "review_stats option"
  rr_sentiment :: "string option"
  rr_pros :: "string list option"
  rr_cons :: "string list option"
  rr_summary :: "string option"
  rr_trust_score :: "rat option"
  rr_themes :: "(string list \<times> string list) option"
  rr_full_analysis :: "string option"

definition empty_review :: review_result where
  "empty_review =
     \<lparr> rr_success = False, rr_product_id = None, rr_message = None, rr_error = None,
       rr_statistics = None, rr_sentiment = None, rr_pros = None, rr_cons = None,
       rr_summary = None, rr_trust_score = None, rr_themes = None, rr_full_analysis = None \<rparr>"

text \<open>
  What awaiting the language model call gives: the text, \<open>asyncio.TimeoutError\<close>, or
  any other exception with its message.
\<close>

datatype llm_outcome = LlmText string | LlmTimeout | LlmError string

text \<open>
  The text-only helpers of the analyzer are arguments, so that every theorem holds for
  whatever text they produce: \<open>extract_themes\<close> (positive and negative themes),
  the prompt, \<open>_parse_ai_response\<close> (sentiment, pros, cons, summary) and the two f-strings
  of the fallback. None of them raises on the values they are given.
\<close>

record text_ops =
  extract_themes :: "review list \<Rightarrow> string list \<times> string list"
  analysis_prompt :: "review_stats \<Rightarrow> string list \<times> string list \<Rightarrow> string"
  parse_ai_response :: "string \<Rightarrow> string \<times> string list \<times> string list \<times> string"
  fallback_summary :: "review_stats \<Rightarrow> string"
  fallback_analysis :: "string \<Rightarrow> review_stats \<Rightarrow> string"

definition review_failure :: "int \<Rightarrow> string \<Rightarrow> review_result" where
  "review_failure product_id msg =
     empty_review\<lparr> rr_success := False, rr_error := Some msg, rr_product_id := Some product_id \<rparr>"

definition no_reviews_result :: "int \<Rightarrow> review_result" where
  "no_reviews_result product_id =
     empty_review\<lparr> rr_success := False,
                    rr_message := Some ''No reviews found for this product'',
                    rr_product_id := Some product_id \<rparr>"

definition py_error_text :: "py_error \<Rightarrow> string" where
  "py_error_text e =
     (case e of ZeroDivisionError \<Rightarrow> ''division by zero'' | IndexError \<Rightarrow> ''list index out of range''
      | KeyError \<Rightarrow> ''KeyError'' | ValueError \<Rightarrow> ''invalid literal for int()''
      | CancelledError \<Rightarrow> [] | OtherError msg \<Rightarrow> msg)"

text \<open>
  What one call of \<open>analyze_reviews\<close> returns and does: the result, the cache afterwards
  and the prompts sent to the language model.
\<close>

record review_run =
  run_result :: review_result
  run_cache :: "(int, review_result) simple_cache"
  run_llm_calls :: "string list"

text \<open>
  \<open>analyze_reviews(product_id)\<close>. The cache key \<open>review_analysis_{product_id}\<close> is
  one-to-one in the product id, which stands for it. \<open>now_get\<close> and \<open>now_set\<close> are the
  clock at the cache read and at the cache write; \<open>db\<close> is the outcome of reading the
  product's review rows (left: the query raised); \<open>llm\<close> answers the prompt. A cached
  value is a non-empty dictionary, hence truthy.
\<close>

definition analyze_reviews ::
    "text_ops \<Rightarrow> (int, review_result) simple_cache \<Rightarrow> int \<Rightarrow> int \<Rightarrow> int
       \<Rightarrow> string + review list \<Rightarrow> (string \<Rightarrow> llm_outcome) \<Rightarrow> review_run" where
  "analyze_reviews ops cache now_get now_set product_id db llm =
     (case cache_get cache product_id now_get of
        (Some cached_result, cache1) \<Rightarrow>
          \<lparr> run_result = cached_result, run_cache = cache1, run_llm_calls = [] \<rparr>
      | (None, cache1) \<Rightarrow>
          (case db of
             Inl msg \<Rightarrow>
               \<lparr> run_result = review_failure product_id msg, run_cache = cache1,
                 run_llm_calls = [] \<rparr>
           | Inr rows \<Rightarrow>
               (let reviews = get_reviews rows 100;
                    stats = get_review_statistics rows;
                    themes = extract_themes ops reviews
                in if reviews = [] then
                     \<lparr> run_result = no_reviews_result product_id, run_cache = cache1,
                       run_llm_calls = [] \<rparr>
                   else
                     (let prompt = analysis_prompt ops stats themes
                      in case llm prompt of
                           LlmError msg \<Rightarrow>
                             \<lparr> run_result = review_failure product_id msg, run_cache = cache1,
                               run_llm_calls = [prompt] \<rparr>
                         | LlmTimeout \<Rightarrow>
                             (case calculate_trust_score stats reviews of
                                Inl e \<Rightarrow>
                                  \<lparr> run_result = review_failure product_id (py_error_text e),
                                    run_cache = cache1, run_llm_calls = [prompt] \<rparr>
                              | Inr trust_score \<Rightarrow>
                                  (let avg_rating = average_rating stats;
                                       sentiment = (if 4 \<le> avg_rating then ''Positive''
                                                    else if 3 \<le> avg_rating then ''Neutral''
                                                    else ''Negative'');
                                       pros = (if fst themes \<noteq> [] then take 3 (fst themes)
                                               else [''Overall positive feedback'']);
                                       cons = (if snd themes \<noteq> [] then take 2 (snd themes)
                                               else [''Some concerns noted'']);
                                       result =
                                         \<lparr> rr_success = True, rr_product_id = Some product_id,
                                           rr_message = None, rr_error = None,
                                           rr_statistics = Some stats,
                                           rr_sentiment = Some sentiment,
                                           rr_pros = Some pros, rr_cons = Some cons,
                                           rr_summary = Some (fallback_summary ops stats),
                                           rr_trust_score = Some trust_score,
                                           rr_themes = Some themes,
                                           rr_full_analysis =
                                             Some (fallback_analysis ops sentiment stats) \<rparr>
                                   in \<lparr> run_result = result,
                                        run_cache = cache_set cache1 product_id result now_set,
                                        run_llm_calls = [prompt] \<rparr>))
                         | LlmText analysis_text \<Rightarrow>
                             (case parse_ai_response ops analysis_text of
                                (sentiment, pros, cons, summary) \<Rightarrow>
                                  (case calculate_trust_score stats reviews of
                                     Inl e \<Rightarrow>
                                       \<lparr> run_result = review_failure product_id (py_error_text e),
                                         run_cache = cache1, run_llm_calls = [prompt] \<rparr>
                                   | Inr trust_score \<Rightarrow>
                                       (let result =
                                              \<lparr> rr_success = True, rr_product_id = Some product_id,
                                                rr_message = None, rr_error = None,
                                                rr_statistics = Some stats,
                                                rr_sentiment = Some sentiment,
                                                rr_pros = Some pros, rr_cons = Some cons,
                                                rr_summary = Some summary,
                                                rr_trust_score = Some trust_score,
                                                rr_themes = Some themes,
                                                rr_full_analysis = Some analysis_text \<rparr>
                                        in \<lparr> run_result = result,
                                             run_cache = cache_set cache1 product_id result now_set,
                                             run_llm_calls = [prompt] \<rparr>)))))))"

text \<open>
  The review cache of the module (\<open>ttl_seconds=600\<close>), empty at start, and two
  properties of a cache state: every stored analysis is successful, and every stored
  trust score lies in the unit interval.
\<close>

definition review_cache_init :: "(int, review_result) simple_cache" where
  "review_cache_init = \<lparr> entries = Map.empty, ttl = 600 \<rparr>"

definition cache_all_success :: "(int, review_result) simple_cache \<Rightarrow> bool" where
  "cache_all_success c = (\<forall>k v t. entries c k = Some (v, t) \<longrightarrow> rr_success v)"

definition trust_in_unit :: "review_result \<Rightarrow> bool" where
  "trust_in_unit r = (case rr_trust_score r of None \<Rightarrow> True | Some t \<Rightarrow> 0 \<le> t \<and> t \<le> 1)"

definition cache_trust_in_unit :: "(int, review_result) simple_cache \<Rightarrow> bool" where
  "cache_trust_in_unit c = (\<forall>k v t. entries c k = Some (v, t) \<longrightarrow> trust_in_unit v)"

text \<open>Example data: three reviews, and text helpers that return fixed text.\<close>

definition ex_reviews :: "review list" where
  "ex_reviews =
     [\<lparr> rv_rating = 5, rv_text = Some ''great sound'', rv_verified = True, rv_helpful_count = 4 \<rparr>,
      \<lparr> rv_rating = 4, rv_text = Some ''good value'', rv_verified = True, rv_helpful_count = 2 \<rparr>,
      \<lparr> rv_rating = 1, rv_text = None, rv_verified = False, rv_helpful_count = 0 \<rparr>]"

definition ex_ops :: text_ops where
  "ex_ops =
     \<lparr> extract_themes = (\<lambda>reviews. ([''great sound''], [])),
       analysis_prompt = (\<lambda>stats themes. ''Product Review Analysis''),
       parse_ai_response = (\<lambda>text. (''Positive'', [''Sound''], [''Price''], text)),
       fallback_summary = (\<lambda>stats. ''Product rated''),
       fallback_analysis = (\<lambda>sentiment stats. sentiment) \<rparr>"

text \<open>
  The trust score in the words of the specification, over the review rows of a product:
  0.5, plus 0.3 times the verified share, plus 0.2 for a balanced distribution (else minus
  0.1 for a five-star share above 0.9), plus 0.1 for more than 50 reviews (else 0.05 for
  more than 20), clamped to the unit interval.
\<close>

definition share :: "(review \<Rightarrow> bool) \<Rightarrow> review list \<Rightarrow> rat" where
  "share P rows = of_nat (length (filter P rows)) / of_nat (length rows)"

definition trust_score_spec :: "review list \<Rightarrow> rat" where
  "trust_score_spec rows =
     (let verified_ratio = share rv_verified rows;
          five_star = share (\<lambda>r. rv_rating r = 5) rows;
          one_star = share (\<lambda>r. rv_rating r = 1) rows;
          score = 1 / 2 + (3 / 10) * verified_ratio
                  + (if five_star < 7 / 10 \<and> one_star < 3 / 10 then 2 / 10
                     else if 9 / 10 < five_star then - (1 / 10) else 0)
                  + (if 50 < length rows then 1 / 10
                     else if 20 < length rows then 5 / 100 else 0)
      in min (max score 0) 1)"

definition ex_llm_timeout :: "string \<Rightarrow> llm_outcome" where
  "ex_llm_timeout prompt = LlmTimeout"

text \<open>The prompt that \<open>analyze_reviews\<close> sends for the review rows of a product.\<close>

definition prompt_of :: "text_ops \<Rightarrow> review list \<Rightarrow> string" where
  "prompt_of ops rows =
     analysis_prompt ops (get_review_statistics rows) (extract_themes ops (get_reviews rows 100))"

section \<open>Price tracker agent: \<open>PriceTrackerAgent.analyze_price\<close>\<close>

text \<open>
  The dictionary of a price analysis. The first group of keys is written by
  \<open>analyze_price\<close>, the second by the orchestrator's \<open>_enrich_products\<close>, which
  copies values of the trend dictionary with \<open>trend.get(...)\<close>: such a key can be
  present with the value \<open>None\<close>, which is \<open>Some None\<close> here, while an absent key is
  \<open>None\<close>. \<open>empty_price\<close> is \<open>{}\<close>.
\<close>

record price_result =
  pa_success :: bool
  pa_error :: "string option"
  pa_product_id :: "int option"
  pa_product_name :: "string option"
  pa_price_data :: "trend_data option"
  pa_history :: "price_entry list option"
  pa_ai_recommendation :: "string option"
  pa_recommendation :: "string option"
  pa_confidence :: "string option"
  pa_chart_data :: "chart option"
  pa_data_points :: "nat option"
  pa_current_price :: "rat option option"
  pa_average_price :: "rat option option"
  pa_min_price :: "rat option option"
  pa_max_price :: "rat option option"
  pa_trend :: "string option"
  pa_price_change_pct :: "rat option option"

definition empty_price :: price_result where
  "empty_price =
     \<lparr> pa_success = False, pa_error = None, pa_product_id = None, pa_product_name = None,
       pa_price_data = None, pa_history = None, pa_ai_recommendation = None,
       pa_recommendation = None, pa_confidence = None, pa_chart_data = None,
       pa_data_points = None, pa_current_price = None, pa_average_price = None,
       pa_min_price = None, pa_max_price = None, pa_trend = None,
       pa_price_change_pct = None \<rparr>"

definition price_failure :: "string \<Rightarrow> price_result" where
  "price_failure msg = empty_price\<lparr> pa_success := False, pa_error := Some msg \<rparr>"

definition calculate_confidence :: "trend_data \<Rightarrow> string" where
  "calculate_confidence td =
     (let data_points = (case td_data_points td of Some n \<Rightarrow> n | None \<Rightarrow> 0);
          current = (case td_current_price td of Some c \<Rightarrow> c | None \<Rightarrow> 0);
          min_price = (case td_min_price td of Some m \<Rightarrow> m | None \<Rightarrow> 1)
      in if 20 \<le> data_points \<and> float_le current (min_price * (105 / 100)) then ''high''
         else if 10 \<le> data_points then ''medium''
         else ''low'')"

text \<open>
  \<open>analyze_price(product_id)\<close>: the product row, the 30-day history (read twice by the
  source, from the same table) and the narrative, which is the language model's text or the
  rule-based sentence (\<open>_generate_ai_recommendation\<close> catches every exception). The
  message of a missing product interpolates the id, which is left out.
\<close>

definition analyze_price ::
    "int \<Rightarrow> product_row option \<Rightarrow> price_entry list \<Rightarrow> string \<Rightarrow> price_result" where
  "analyze_price product_id product history narrative =
     (case product of
        None \<Rightarrow> price_failure ''Product not found''
      | Some p \<Rightarrow>
          (case calculate_price_trend history (Some (pr_price p)) of
             Inl e \<Rightarrow> price_failure ''float division by zero''
           | Inr td \<Rightarrow>
               empty_price
                 \<lparr> pa_success := True,
                   pa_product_id := Some product_id,
                   pa_product_name := Some (pr_name p),
                   pa_price_data := Some td,
                   pa_history := Some (take 10 history),
                   pa_ai_recommendation := Some narrative,
                   pa_recommendation := Some (td_recommendation td),
                   pa_confidence := Some (calculate_confidence td) \<rparr>))"

section \<open>The orchestrator: \<open>src/agents/orchestrator_agent.py\<close>\<close>

text \<open>
  A product dictionary of \<open>search_products\<close>; the keys not read by the orchestrator
  (model, category, description, features, specifications, ...) are left out.
\<close>

record product =
  p_id :: int
  p_name :: string
  p_brand :: "string option"
  p_price :: rat
  p_mrp :: rat
  p_discount_percent :: rat
  p_rating :: rat
  p_review_count :: nat
  p_in_stock :: bool

record search_response =
  sr_success :: bool
  sr_products :: "product list"

text \<open>
  What awaiting an agent call inside \<open>asyncio.wait_for\<close> gives: the value it returns,
  \<open>asyncio.TimeoutError\<close>, or another exception with its message.
\<close>

datatype 'a awaited = Returned 'a | TimedOut | Raised string

text \<open>
  The state of one of the four tasks when \<open>asyncio.wait_for\<close> raises \<open>TimeoutError\<close>
  at the 120 second ceiling: the wrapper has returned its dictionary, or the task was
  cancelled (the timeout cancels \<open>gather\<close>, which cancels every task that has not
  finished), or it is not done.
\<close>

datatype task_state = Finished | Cancelled | Pending

record task_states =
  ts_review :: task_state
  ts_price :: task_state
  ts_comparison :: task_state
  ts_buyplan :: task_state

text \<open>The comparison agent's dictionary, as far as the orchestrator reads it.\<close>

record cmp_product =
  cp_id :: int
  cp_name :: string
  cp_price :: rat
  cp_rating :: rat

record winner =
  w_product :: string
  w_value :: string
  w_reason :: string

record comparison_result =
  cmp_success :: bool
  cmp_error :: "string option"
  cmp_products :: "cmp_product list"
  cmp_best_overall :: "winner option"
  cmp_best_price :: "winner option"
  cmp_best_rating :: "winner option"
  cmp_best_value :: "winner option"
  cmp_differences :: "string option"
  cmp_ai_analysis :: "string option"
  cmp_frontend_table :: "string option"

definition comparison_failure :: "string \<Rightarrow> comparison_result" where
  "comparison_failure msg =
     \<lparr> cmp_success = False, cmp_error = Some msg, cmp_products = [], cmp_best_overall = None,
       cmp_best_price = None, cmp_best_rating = None, cmp_best_value = None,
       cmp_differences = None, cmp_ai_analysis = None, cmp_frontend_table = None \<rparr>"

text \<open>
  Everything outside the orchestrator that one request meets: the outcome of each awaited
  agent call (reviews and prices by position in the product list), the outcome of building
  the comparison table (left: it raised), whether \<open>gather\<close> finished within the 120
  second ceiling (\<open>None\<close>) or in which state the ceiling found the four tasks, the draws of
  \<open>random.uniform(-0.05, 0.05)\<close> in order, the chart label \<open>strftime\<close> gives for the
  day \<open>i\<close> days ago, the rule-based summary sentence, and the clock readings.
\<close>

record orch_env =
  env_review :: "nat \<Rightarrow> review_result awaited"
  env_price :: "nat \<Rightarrow> price_result awaited"
  env_comparison :: "comparison_result awaited"
  env_table :: "string + string"
  env_buyplan :: "(string + purchase_plan) awaited"
  env_ceiling :: "task_states option"
  env_random :: "nat \<Rightarrow> rat"
  env_day_label :: "nat \<Rightarrow> string"
  env_summary :: "string \<Rightarrow> product list \<Rightarrow> string"
  env_timestamp :: string
  env_execution_time :: rat
  env_model_name :: string

subsection \<open>The four task wrappers\<close>

definition review_of_awaited :: "review_result awaited \<Rightarrow> review_result" where
  "review_of_awaited result =
     (case result of
        Returned r \<Rightarrow> r
      | TimedOut \<Rightarrow> empty_review\<lparr> rr_success := False, rr_error := Some ''Timeout'' \<rparr>
      | Raised msg \<Rightarrow> empty_review\<lparr> rr_success := False, rr_error := Some msg \<rparr>)"

definition price_of_awaited :: "price_result awaited \<Rightarrow> price_result" where
  "price_of_awaited result =
     (case result of
        Returned r \<Rightarrow> r
      | TimedOut \<Rightarrow> price_failure ''Timeout''
      | Raised msg \<Rightarrow> price_failure msg)"

text \<open>
  The dictionary comprehension over \<open>zip(product_ids, results)\<close>: a later pair with the
  same product id replaces an earlier one.
\<close>

definition results_by_id :: "int list \<Rightarrow> 'a list \<Rightarrow> (int \<rightharpoonup> 'a)" where
  "results_by_id product_ids results =
     fold (\<lambda>(product_id, result) m. m(product_id \<mapsto> result)) (zip product_ids results) Map.empty"

definition analyze_all_reviews :: "orch_env \<Rightarrow> int list \<Rightarrow> (int \<rightharpoonup> review_result)" where
  "analyze_all_reviews env product_ids =
     results_by_id product_ids
       (map (\<lambda>i. review_of_awaited (env_review env i)) [0..<length product_ids])"

definition track_all_prices :: "orch_env \<Rightarrow> int list \<Rightarrow> (int \<rightharpoonup> price_result)" where
  "track_all_prices env product_ids =
     results_by_id product_ids
       (map (\<lambda>i. price_of_awaited (env_price env i)) [0..<length product_ids])"

definition compare_products :: "orch_env \<Rightarrow> int list \<Rightarrow> comparison_result" where
  "compare_products env product_ids =
     (if length product_ids < 2 then comparison_failure ''Need at least 2 products to compare''
      else
        (case env_comparison env of
           TimedOut \<Rightarrow> comparison_failure ''Comparison timeout''
         | Raised msg \<Rightarrow> comparison_failure msg
         | Returned comparison_result \<Rightarrow>
             if cmp_success comparison_result \<and> cmp_products comparison_result \<noteq> [] then
               (case env_table env of
                  Inl msg \<Rightarrow> comparison_failure msg
                | Inr table_data \<Rightarrow> comparison_result\<lparr> cmp_frontend_table := Some table_data \<rparr>)
             else comparison_result))"

definition create_buy_plan :: "orch_env \<Rightarrow> string + purchase_plan" where
  "create_buy_plan env =
     (case env_buyplan env of
        Returned plan \<Rightarrow> plan
      | TimedOut \<Rightarrow> Inl ''Buy plan timeout''
      | Raised msg \<Rightarrow> Inl msg)"

subsection \<open>\<open>_enrich_products\<close>\<close>

record enriched_product =
  ep_product :: product
  ep_review_analysis :: review_result
  ep_price_analysis :: price_result

text \<open>
  The mock chart: for \<open>i\<close> from 30 down to 1, the label of the day \<open>i\<close> days ago and
  the base price varied by the next random draw, rounded to two decimals. \<open>k\<close> counts
  the draws made so far.
\<close>

definition mock_chart :: "orch_env \<Rightarrow> rat \<Rightarrow> nat \<Rightarrow> chart" where
  "mock_chart env base_price k =
     SeriesChart (map (\<lambda>j. env_day_label env (30 - j)) [0..<30])
                 (map (\<lambda>j. py_round (base_price * (1 + env_random env (k + j))) 2) [0..<30])"

text \<open>
  The body of the loop for one product, on the product's price dictionary: the chart
  (from the history, else the tracker's chart, else the mock chart when the price is
  positive), then the copies of the trend values. Returns the dictionary and the number of
  random draws made so far.
\<close>

definition enrich_price ::
    "orch_env \<Rightarrow> product \<Rightarrow> price_result \<Rightarrow> nat \<Rightarrow> price_result \<times> nat" where
  "enrich_price env p price_data k =
     (let existing_chart_data =
            (case pa_price_data price_data of Some td \<Rightarrow> td_chart_data td | None \<Rightarrow> None);
          (charted, k') =
            (case pa_history price_data of
               Some (h # hs) \<Rightarrow>
                 (price_data\<lparr> pa_chart_data :=
                                 Some (SeriesChart (map (\<lambda>e. take 10 (pe_date e)) (h # hs))
                                                   (map pe_price (h # hs))),
                              pa_data_points := Some (length (h # hs)) \<rparr>, k)
             | _ \<Rightarrow>
                 (case existing_chart_data of
                    Some c \<Rightarrow> (price_data\<lparr> pa_chart_data := Some c \<rparr>, k)
                  | None \<Rightarrow>
                      if 0 < p_price p then
                        (price_data\<lparr> pa_chart_data := Some (mock_chart env (p_price p) k),
                                     pa_data_points := Some 30 \<rparr>, k + 30)
                      else (price_data, k)))
      in (case pa_price_data charted of
            Some trend \<Rightarrow>
              (charted\<lparr> pa_current_price := Some (td_current_price trend),
                        pa_average_price := Some (td_average_price trend),
                        pa_min_price := Some (td_min_price trend),
                        pa_max_price := Some (td_max_price trend),
                        pa_trend := Some (td_trend trend),
                        pa_price_change_pct := Some (td_price_change_pct trend) \<rparr>, k')
          | None \<Rightarrow> (charted, k')))"

text \<open>
  The loop. The price dictionary of a product is the object stored in \<open>price_results\<close>
  under its id and is changed in place, so the dictionaries live in a store and an enriched
  product refers to its own (\<open>Shared\<close>), unless the id has no entry and the product gets
  a fresh dictionary (\<open>Own\<close>). The references are read when the loop has ended.
\<close>

datatype price_ref = Shared int | Own price_result

fun enrich_loop ::
    "orch_env \<Rightarrow> product list \<Rightarrow> (int \<rightharpoonup> review_result) \<Rightarrow> (int \<rightharpoonup> price_result) \<Rightarrow> nat
       \<Rightarrow> (product \<times> review_result \<times> price_ref) list \<times> (int \<rightharpoonup> price_result)" where
  "enrich_loop env [] review_results store k = ([], store)"
| "enrich_loop env (p # ps) review_results store k =
     (let review = (case review_results (p_id p) of Some r \<Rightarrow> r | None \<Rightarrow> empty_review);
          enriched = enrich_price env p
                       (case store (p_id p) of Some d \<Rightarrow> d | None \<Rightarrow> empty_price) k;
          reference = (case store (p_id p) of Some d \<Rightarrow> Shared (p_id p)
                       | None \<Rightarrow> Own (fst enriched));
          store' = (case store (p_id p) of Some d \<Rightarrow> store(p_id p \<mapsto> fst enriched)
                    | None \<Rightarrow> store);
          rest = enrich_loop env ps review_results store' (snd enriched)
      in ((p, review, reference) # fst rest, snd rest))"

definition deref :: "(int \<rightharpoonup> price_result) \<Rightarrow> price_ref \<Rightarrow> price_result" where
  "deref store reference =
     (case reference of
        Shared i \<Rightarrow> (case store i of Some d \<Rightarrow> d | None \<Rightarrow> empty_price)
      | Own d \<Rightarrow> d)"

definition enrich_products ::
    "orch_env \<Rightarrow> product list \<Rightarrow> (int \<rightharpoonup> review_result) \<Rightarrow> (int \<rightharpoonup> price_result)
       \<Rightarrow> enriched_product list" where
  "enrich_products env products review_results price_results =
     (let looped = enrich_loop env products review_results price_results 0
      in map (\<lambda>(p, review, reference).
                \<lparr> ep_product = p, ep_review_analysis = review,
                  ep_price_analysis = deref (snd looped) reference \<rparr>)
             (fst looped))"

subsection \<open>\<open>_format_user_friendly_response\<close>\<close>

text \<open>
  The badge texts; the emoji that the source puts in front of each text is left out.
  \<open>py_lower\<close> is \<open>str.lower()\<close> on ASCII letters.
\<close>

definition py_lower :: "string \<Rightarrow> string" where
  "py_lower s =
     map (\<lambda>c. if 65 \<le> (of_char c :: nat) \<and> (of_char c :: nat) \<le> 90
               then char_of ((of_char c :: nat) + 32) else c) s"

definition get_rating_badge :: "rat \<Rightarrow> string" where
  "get_rating_badge rating =
     (if 45 / 10 \<le> rating then ''Excellent''
      else if 4 \<le> rating then ''Very Good''
      else if 35 / 10 \<le> rating then ''Good''
      else if 3 \<le> rating then ''Average''
      else ''Below Average'')"

definition get_sentiment_emoji :: "string \<Rightarrow> string" where
  "get_sentiment_emoji sentiment =
     (let sentiment_lower = py_lower sentiment
      in if py_contains ''positive'' sentiment_lower then ''Positive''
         else if py_contains ''negative'' sentiment_lower then ''Negative''
         else ''Neutral'')"

definition get_price_badge :: "string \<Rightarrow> string" where
  "get_price_badge recommendation =
     (let rec_lower = py_lower recommendation
      in if py_contains ''buy'' rec_lower \<or> py_contains ''now'' rec_lower then ''Buy Now''
         else if py_contains ''good'' rec_lower then ''Good Deal''
         else ''Wait'')"

record review_block =
  rb_available :: bool
  rb_sentiment :: string
  rb_sentiment_emoji :: string
  rb_trust_score :: rat
  rb_trust_score_percent :: rat
  rb_pros :: "string list"
  rb_cons :: "string list"
  rb_summary :: string
  rb_top_pro :: string
  rb_top_con :: string
  rb_statistics :: "review_stats option"
  rb_full_analysis :: string

text \<open>
  The \<open>review_analysis\<close> section. \<open>trust_score_percent\<close> is the number that the
  source prints with \<open>:.0f\<close> and a percent sign.
\<close>

definition format_review :: "review_result \<Rightarrow> review_block" where
  "format_review review =
     (let trust = (case rr_trust_score review of Some t \<Rightarrow> t | None \<Rightarrow> 0);
          pros = (case rr_pros review of Some ps \<Rightarrow> ps | None \<Rightarrow> []);
          cons = (case rr_cons review of Some cs \<Rightarrow> cs | None \<Rightarrow> [])
      in \<lparr> rb_available = rr_success review,
            rb_sentiment = (case rr_sentiment review of Some s \<Rightarrow> s | None \<Rightarrow> ''N/A''),
            rb_sentiment_emoji =
              get_sentiment_emoji (case rr_sentiment review of Some s \<Rightarrow> s | None \<Rightarrow> ''Neutral''),
            rb_trust_score = trust,
            rb_trust_score_percent = py_round (trust * 100) 0,
            rb_pros = pros,
            rb_cons = cons,
            rb_summary = (case rr_summary review of Some s \<Rightarrow> s | None \<Rightarrow> ''''),
            rb_top_pro = (case pros of [] \<Rightarrow> ''No pros available'' | x # xs \<Rightarrow> x),
            rb_top_con = (case cons of [] \<Rightarrow> ''No cons mentioned'' | x # xs \<Rightarrow> x),
            rb_statistics = rr_statistics review,
            rb_full_analysis = (case rr_full_analysis review of Some s \<Rightarrow> s | None \<Rightarrow> '''') \<rparr>)"

record price_block =
  pb_available :: bool
  pb_recommendation :: string
  pb_recommendation_badge :: string
  pb_current_price :: "rat option"
  pb_average_price :: "rat option"
  pb_lowest_price :: "rat option"
  pb_highest_price :: "rat option"
  pb_price_trend :: string
  pb_price_change_percent :: "rat option"
  pb_ai_recommendation :: string
  pb_confidence :: string
  pb_chart_data :: "chart option"
  pb_history_days :: nat

text \<open>\<open>d.get(key, default)\<close> for a key whose value may be \<open>None\<close>.\<close>

definition get_or :: "'a option option \<Rightarrow> 'a \<Rightarrow> 'a option" where
  "get_or v dflt = (case v of None \<Rightarrow> Some dflt | Some x \<Rightarrow> x)"

definition format_price :: "product \<Rightarrow> price_result \<Rightarrow> price_block" where
  "format_price p price =
     \<lparr> pb_available = pa_success price,
       pb_recommendation = (case pa_recommendation price of Some r \<Rightarrow> r | None \<Rightarrow> ''N/A''),
       pb_recommendation_badge =
         get_price_badge (case pa_recommendation price of Some r \<Rightarrow> r | None \<Rightarrow> ''wait''),
       pb_current_price = get_or (pa_current_price price) (p_price p),
       pb_average_price = get_or (pa_average_price price) (p_price p),
       pb_lowest_price = get_or (pa_min_price price) (p_price p),
       pb_highest_price = get_or (pa_max_price price) (p_price p),
       pb_price_trend = (case pa_trend price of Some t \<Rightarrow> t | None \<Rightarrow> ''stable''),
       pb_price_change_percent = get_or (pa_price_change_pct price) 0,
       pb_ai_recommendation = (case pa_ai_recommendation price of Some s \<Rightarrow> s | None \<Rightarrow> ''''),
       pb_confidence = (case pa_confidence price of Some c \<Rightarrow> c | None \<Rightarrow> ''medium''),
       pb_chart_data = pa_chart_data price,
       pb_history_days = (case pa_data_points price of Some n \<Rightarrow> n | None \<Rightarrow> 0) \<rparr>"

text \<open>
  One entry of \<open>formatted_products\<close>. The source reads the discount with the key
  \<open>discount_pct\<close>, which a search result does not have, so the default 0 is shown.
\<close>

record formatted_product =
  fp_rank :: nat
  fp_id :: int
  fp_name :: string
  fp_brand :: "string option"
  fp_current_price :: rat
  fp_mrp :: rat
  fp_discount_percent :: rat
  fp_you_save :: rat
  fp_in_stock :: bool
  fp_average_rating :: rat
  fp_total_reviews :: nat
  fp_rating_badge :: string
  fp_review_analysis :: review_block
  fp_price_tracking :: price_block
  fp_original_data :: enriched_product

definition format_product :: "nat \<Rightarrow> enriched_product \<Rightarrow> formatted_product" where
  "format_product i e =
     (let p = ep_product e
      in \<lparr> fp_rank = i,
            fp_id = p_id p,
            fp_name = p_name p,
            fp_brand = p_brand p,
            fp_current_price = p_price p,
            fp_mrp = p_mrp p,
            fp_discount_percent = 0,
            fp_you_save = p_mrp p - p_price p,
            fp_in_stock = p_in_stock p,
            fp_average_rating = p_rating p,
            fp_total_reviews = p_review_count p,
            fp_rating_badge = get_rating_badge (p_rating p),
            fp_review_analysis = format_review (ep_review_analysis e),
            fp_price_tracking = format_price p (ep_price_analysis e),
            fp_original_data = e \<rparr>)"

text \<open>\<open>enumerate(products, 1)\<close>.\<close>

fun format_products :: "nat \<Rightarrow> enriched_product list \<Rightarrow> formatted_product list" where
  "format_products i [] = []"
| "format_products i (e # es) = format_product i e # format_products (Suc i) es"

record formatted_comparison =
  fc_available :: bool
  fc_error :: "string option"
  fc_winner_name :: string
  fc_winner_id :: "int option"
  fc_winner_reason :: string
  fc_winner_value :: string
  fc_best_price_name :: string
  fc_best_price_raw :: rat
  fc_best_rating_name :: string
  fc_best_rating_raw :: rat
  fc_best_value_name :: string
  fc_ai_comparison :: string
  fc_frontend_table :: "string option"
  fc_full_comparison :: "comparison_result option"

definition format_comparison :: "comparison_result \<Rightarrow> formatted_comparison" where
  "format_comparison comparison =
     (if cmp_success comparison then
        (let best_overall = cmp_best_overall comparison;
             comparison_products = cmp_products comparison;
             name_of = (\<lambda>w. case w of Some x \<Rightarrow> w_product x | None \<Rightarrow> ''N/A'');
             winner_product_id =
               (case best_overall of
                  None \<Rightarrow> None
                | Some w \<Rightarrow>
                    map_option cp_id (find (\<lambda>c. cp_name c = w_product w) comparison_products))
         in \<lparr> fc_available = True,
               fc_error = None,
               fc_winner_name = name_of best_overall,
               fc_winner_id = winner_product_id,
               fc_winner_reason = (case best_overall of Some w \<Rightarrow> w_reason w | None \<Rightarrow> ''N/A''),
               fc_winner_value = (case best_overall of Some w \<Rightarrow> w_value w | None \<Rightarrow> ''''),
               fc_best_price_name = name_of (cmp_best_price comparison),
               fc_best_price_raw = py_min (map cp_price comparison_products),
               fc_best_rating_name = name_of (cmp_best_rating comparison),
               fc_best_rating_raw = py_max (map cp_rating comparison_products),
               fc_best_value_name = name_of (cmp_best_value comparison),
               fc_ai_comparison = (case cmp_ai_analysis comparison of Some s \<Rightarrow> s | None \<Rightarrow> ''''),
               fc_frontend_table = cmp_frontend_table comparison,
               fc_full_comparison = Some comparison \<rparr>)
      else
        \<lparr> fc_available = False,
          fc_error = Some (case cmp_error comparison of Some e \<Rightarrow> e | None \<Rightarrow> ''Comparison failed''),
          fc_winner_name = '''', fc_winner_id = None, fc_winner_reason = '''', fc_winner_value = '''',
          fc_best_price_name = '''', fc_best_price_raw = 0, fc_best_rating_name = '''',
          fc_best_rating_raw = 0, fc_best_value_name = '''', fc_ai_comparison = '''',
          fc_frontend_table = None, fc_full_comparison = None \<rparr>)"

record formatted_buyplan =
  fb_available :: bool
  fb_product_name :: string
  fb_product_price :: rat
  fb_emi_eligible :: bool
  fb_payment_options :: "payment_option list"
  fb_regular_emi_plans :: "emi_plan list"
  fb_no_cost_emi_plans :: "emi_plan list"
  fb_best_instant_savings :: "payment_option option"
  fb_best_cashback :: "payment_option option"
  fb_best_emi :: "payment_option option"
  fb_ai_recommendation :: string
  fb_summary :: string
  fb_full_plan :: "string + purchase_plan"

text \<open>
  The buy plan is formatted when the dictionary has no truthy \<open>error\<close>: a plan, or a
  failure whose error text is empty.
\<close>

definition format_buyplan :: "string + purchase_plan \<Rightarrow> formatted_buyplan option" where
  "format_buyplan buyplan =
     (case buyplan of
        Inl err \<Rightarrow>
          if err = [] then
            Some \<lparr> fb_available = True, fb_product_name = '''', fb_product_price = 0,
                   fb_emi_eligible = False, fb_payment_options = [], fb_regular_emi_plans = [],
                   fb_no_cost_emi_plans = [], fb_best_instant_savings = None,
                   fb_best_cashback = None, fb_best_emi = None, fb_ai_recommendation = '''',
                   fb_summary = '''', fb_full_plan = buyplan \<rparr>
          else None
      | Inr plan \<Rightarrow>
          Some \<lparr> fb_available = True,
                 fb_product_name = pp_product_name plan,
                 fb_product_price = pp_product_price plan,
                 fb_emi_eligible = pp_emi_eligible plan,
                 fb_payment_options = pp_payment_options plan,
                 fb_regular_emi_plans = pp_regular_emi_plans plan,
                 fb_no_cost_emi_plans = pp_no_cost_emi_plans plan,
                 fb_best_instant_savings = pp_best_instant_savings plan,
                 fb_best_cashback = pp_best_cashback plan,
                 fb_best_emi = pp_best_emi plan,
                 fb_ai_recommendation = pp_ai_recommendation plan,
                 fb_summary = pp_summary plan,
                 fb_full_plan = buyplan \<rparr>)"

text \<open>
  The response. A failure response has \<open>success\<close> false, the error and the query; the
  remaining keys exist on a successful response only and are empty here otherwise. The
  constant metadata (agent names, execution type) is left out.
\<close>

record orchestrated_response =
  resp_success :: bool
  resp_error :: "string option"
  resp_query :: string
  resp_timestamp :: string
  resp_execution_time_seconds :: rat
  resp_total_products_found :: nat
  resp_top_recommendation :: string
  resp_top_price :: rat
  resp_top_rating :: rat
  resp_ai_recommendation :: string
  resp_products :: "formatted_product list"
  resp_comparison :: "formatted_comparison option"
  resp_buy_plan :: "formatted_buyplan option"
  resp_llm_model :: string

definition failure_response :: "string \<Rightarrow> string \<Rightarrow> orchestrated_response" where
  "failure_response err query =
     \<lparr> resp_success = False, resp_error = Some err, resp_query = query, resp_timestamp = '''',
       resp_execution_time_seconds = 0, resp_total_products_found = 0,
       resp_top_recommendation = '''', resp_top_price = 0, resp_top_rating = 0,
       resp_ai_recommendation = '''', resp_products = [], resp_comparison = None,
       resp_buy_plan = None, resp_llm_model = '''' \<rparr>"

definition format_user_friendly_response ::
    "orch_env \<Rightarrow> string \<Rightarrow> enriched_product list \<Rightarrow> comparison_result option
       \<Rightarrow> (string + purchase_plan) option \<Rightarrow> string \<Rightarrow> orchestrated_response" where
  "format_user_friendly_response env query products comparison buyplan ai_summary =
     \<lparr> resp_success = True,
       resp_error = None,
       resp_query = query,
       resp_timestamp = env_timestamp env,
       resp_execution_time_seconds = py_round (env_execution_time env) 2,
       resp_total_products_found = length products,
       resp_top_recommendation =
         (case products of [] \<Rightarrow> ''N/A'' | e # es \<Rightarrow> p_name (ep_product e)),
       resp_top_price = (case products of [] \<Rightarrow> 0 | e # es \<Rightarrow> p_price (ep_product e)),
       resp_top_rating = (case products of [] \<Rightarrow> 0 | e # es \<Rightarrow> p_rating (ep_product e)),
       resp_ai_recommendation = ai_summary,
       resp_products = format_products 1 products,
       resp_comparison =
         (case comparison of None \<Rightarrow> None | Some c \<Rightarrow> Some (format_comparison c)),
       resp_buy_plan = (case buyplan of None \<Rightarrow> None | Some b \<Rightarrow> format_buyplan b),
       resp_llm_model = env_model_name env \<rparr>"

subsection \<open>\<open>orchestrate_recommendation\<close>\<close>

text \<open>\<open>xs[0]\<close>, which raises \<open>IndexError\<close> on the empty list.\<close>

definition py_first :: "'a list \<Rightarrow> py_error + 'a" where
  "py_first xs = (case xs of [] \<Rightarrow> Inl IndexError | x # rest \<Rightarrow> Inr x)"

text \<open>
  \<open>task.result() if task.done() else default\<close> in the handler of the ceiling. A finished
  task gives the dictionary its wrapper returned; a cancelled task is done, and its
  \<open>result()\<close> raises \<open>CancelledError\<close>.
\<close>

definition task_result :: "task_state \<Rightarrow> 'a \<Rightarrow> 'a \<Rightarrow> py_error + 'a" where
  "task_result state returned dflt =
     (case state of
        Finished \<Rightarrow> Inr returned
      | Cancelled \<Rightarrow> Inl CancelledError
      | Pending \<Rightarrow> Inr dflt)"

text \<open>
  The four results after the inner \<open>try\<close> (lines 150 to 179). Each wrapper turns its
  own timeout and exceptions into a failure dictionary, so when \<open>gather\<close> finishes it
  returns four dictionaries. Otherwise the handler of \<open>asyncio.TimeoutError\<close> reads the
  four tasks in the order review, price, comparison, buy plan, with the defaults \<open>{}\<close>,
  \<open>{}\<close>, \<open>None\<close> and \<open>None\<close>.
\<close>

record task_results =
  tr_reviews :: "int \<rightharpoonup> review_result"
  tr_prices :: "int \<rightharpoonup> price_result"
  tr_comparison :: "comparison_result option"
  tr_buyplan :: "(string + purchase_plan) option"

definition run_tasks :: "orch_env \<Rightarrow> int list \<Rightarrow> int list \<Rightarrow> py_error + task_results" where
  "run_tasks env product_ids comparison_ids =
     (let review_returned = analyze_all_reviews env product_ids;
          price_returned = track_all_prices env product_ids;
          comparison_returned = compare_products env comparison_ids;
          buyplan_returned = create_buy_plan env
      in case env_ceiling env of
           None \<Rightarrow>
             Inr \<lparr> tr_reviews = review_returned, tr_prices = price_returned,
                   tr_comparison = Some comparison_returned,
                   tr_buyplan = Some buyplan_returned \<rparr>
         | Some states \<Rightarrow>
             (case task_result (ts_review states) review_returned Map.empty of
                Inl e \<Rightarrow> Inl e
              | Inr review_result \<Rightarrow>
             (case task_result (ts_price states) price_returned Map.empty of
                Inl e \<Rightarrow> Inl e
              | Inr price_result \<Rightarrow>
             (case task_result (ts_comparison states) (Some comparison_returned) None of
                Inl e \<Rightarrow> Inl e
              | Inr comparison_result \<Rightarrow>
             (case task_result (ts_buyplan states) (Some buyplan_returned) None of
                Inl e \<Rightarrow> Inl e
              | Inr buyplan_result \<Rightarrow>
                  Inr \<lparr> tr_reviews = review_result, tr_prices = price_result,
                        tr_comparison = comparison_result,
                        tr_buyplan = buyplan_result \<rparr>)))))"

text \<open>
  \<open>except Exception\<close> catches every exception of the model but \<open>CancelledError\<close>,
  which derives from \<open>BaseException\<close> (Python 3.8 and later).
\<close>

definition is_exception :: "py_error \<Rightarrow> bool" where
  "is_exception e = (e \<noteq> CancelledError)"

text \<open>
  The search result is an argument (\<open>search_products\<close> catches its exceptions and
  returns a dictionary). An exception in the body that \<open>except Exception\<close> catches
  becomes a failure response with its text; one that it does not catch leaves the function
  (\<open>Inl\<close>).
\<close>

definition orchestrate_recommendation ::
    "orch_env \<Rightarrow> string \<Rightarrow> int \<Rightarrow> search_response \<Rightarrow> py_error + orchestrated_response" where
  "orchestrate_recommendation env query top_n search_result =
     (if \<not> sr_success search_result \<or> sr_products search_result = [] then
        Inr (failure_response ''No products found matching your query'' query)
      else
        (let products = py_prefix top_n (sr_products search_result);
             product_ids = map p_id products;
             body =
               (case py_first product_ids of
                  Inl e \<Rightarrow> Inl e
                | Inr top_product_id \<Rightarrow>
                    (let comparison_ids = take (min 5 (length product_ids)) product_ids
                     in case run_tasks env product_ids comparison_ids of
                          Inl e \<Rightarrow> Inl e
                        | Inr results \<Rightarrow>
                            (let enriched_products =
                                   enrich_products env products (tr_reviews results)
                                     (tr_prices results);
                                 ai_summary =
                                   env_summary env query (map ep_product enriched_products)
                             in Inr (format_user_friendly_response env query enriched_products
                                       (tr_comparison results) (tr_buyplan results) ai_summary))))
         in case body of
              Inl e \<Rightarrow> if is_exception e then Inr (failure_response (py_error_text e) query)
                        else Inl e
            | Inr response \<Rightarrow> Inr response))"

text \<open>Whether the price dictionary stored under a product id reports success.\<close>

definition success_at :: "(int \<rightharpoonup> price_result) \<Rightarrow> int \<Rightarrow> bool" where
  "success_at store i = (case store i of Some d \<Rightarrow> pa_success d | None \<Rightarrow> False)"

text \<open>
  Example request: two retrieved products, and an environment in which all four analysis
  tasks time out. \<open>ex_env_draws\<close> differs from it in the random draws only.
\<close>

definition ex_products :: "product list" where
  "ex_products =
     [\<lparr> p_id = 11, p_name = ''Headphones A'', p_brand = Some ''Acme'', p_price = 1000,
        p_mrp = 1500, p_discount_percent = 333 / 10, p_rating = 45 / 10, p_review_count = 120,
        p_in_stock = True \<rparr>,
      \<lparr> p_id = 12, p_name = ''Headphones B'', p_brand = None, p_price = 2000,
        p_mrp = 2000, p_discount_percent = 0, p_rating = 39 / 10, p_review_count = 15,
        p_in_stock = True \<rparr>]"

definition ex_search :: search_response where
  "ex_search = \<lparr> sr_success = True, sr_products = ex_products \<rparr>"

definition ex_env_timeout :: orch_env where
  "ex_env_timeout =
     \<lparr> env_review = (\<lambda>i. TimedOut),
       env_price = (\<lambda>i. TimedOut),
       env_comparison = TimedOut,
       env_table = Inr ''table'',
       env_buyplan = TimedOut,
       env_ceiling = None,
       env_random = (\<lambda>k. 0),
       env_day_label = (\<lambda>i. ''2026-01-01''),
       env_summary = (\<lambda>query products. ''Based on your search''),
       env_timestamp = ''2026-01-31T12:00:00'',
       env_execution_time = 3,
       env_model_name = ''llama3.1'' \<rparr>"

definition ex_env_draws :: orch_env where
  "ex_env_draws = ex_env_timeout\<lparr> env_random := (\<lambda>k. 1 / 100) \<rparr>"

text \<open>
  The same request when the 120 second ceiling is reached: the buy-plan wrapper has
  returned its plan, and the review, price and comparison tasks, which were still waiting
  for their language model calls, are cancelled by the ceiling.
\<close>

definition ex_env_ceiling :: orch_env where
  "ex_env_ceiling =
     ex_env_timeout
       \<lparr> env_buyplan :=
           Returned (create_purchase_plan 11
                       (Some \<lparr> pr_id = 11, pr_name = ''Headphones A'', pr_price = 1000,
                                pr_mrp = Some 1500 \<rparr>)
                       [] ''Pay in full.'' ''Plan summary''),
         env_ceiling := Some \<lparr> ts_review = Cancelled, ts_price = Cancelled,
                               ts_comparison = Cancelled, ts_buyplan = Finished \<rparr> \<rparr>"

text \<open>
  The same request when the price analysis of the first product succeeds (a product
  without price history) and everything else times out.
\<close>

definition ex_env_mixed :: orch_env where
  "ex_env_mixed =
     ex_env_timeout
       \<lparr> env_price :=
           (\<lambda>i. if i = 0
                 then Returned (analyze_price 11
                        (Some \<lparr> pr_id = 11, pr_name = ''Headphones A'', pr_price = 1000,
                                 pr_mrp = Some 1500 \<rparr>)
                        [] ''Wait for a better deal.'')
                 else TimedOut) \<rparr>"

text \<open>
  A product needs no mock chart when its price dictionary carries a non-empty history or
  the tracker's chart, or when its price is not positive.
\<close>

definition mock_free :: "product \<Rightarrow> price_result \<Rightarrow> bool" where
  "mock_free p d =
     ((case pa_history d of Some (h # hs) \<Rightarrow> True | _ \<Rightarrow> False)
      \<or> (case pa_price_data d of Some td \<Rightarrow> td_chart_data td \<noteq> None | None \<Rightarrow> False)
      \<or> p_price p \<le> 0)"

text \<open>
  Two environments in which the awaited tasks, the comparison table and the summary
  sentence are the same; the random draws, the day labels and the clock may differ.
\<close>

definition same_tasks :: "orch_env \<Rightarrow> orch_env \<Rightarrow> bool" where
  "same_tasks env1 env2 =
     (env_review env1 = env_review env2 \<and> env_price env1 = env_price env2
      \<and> env_comparison env1 = env_comparison env2 \<and> env_table env1 = env_table env2
      \<and> env_buyplan env1 = env_buyplan env2 \<and> env_ceiling env1 = env_ceiling env2
      \<and> env_summary env1 = env_summary env2)"

text \<open>
  Example of a warm run: the review of every product comes from the cache, and the price
  analysis of a product without price history succeeds. \<open>ex_env_warm_again\<close> is the
  same environment with other random draws.
\<close>

definition ex_cached_review :: review_result where
  "ex_cached_review =
     run_result (analyze_reviews ex_ops review_cache_init 0 5 11 (Inr ex_reviews) ex_llm_timeout)"

definition ex_price_row :: product_row where
  "ex_price_row = \<lparr> pr_id = 11, pr_name = ''Headphones A'', pr_price = 1000, pr_mrp = Some 1500 \<rparr>"

definition ex_env_warm :: orch_env where
  "ex_env_warm =
     ex_env_timeout
       \<lparr> env_review := (\<lambda>i. Returned ex_cached_review),
         env_price := (\<lambda>i. Returned (analyze_price 11 (Some ex_price_row) [] ''Wait for a better deal.'')) \<rparr>"

definition ex_env_warm_again :: orch_env where
  "ex_env_warm_again = ex_env_warm\<lparr> env_random := (\<lambda>k. 1 / 100) \<rparr>"

section \<open>Verification\<close>

subsection \<open>Price analysis: the recommendation rule\<close>

lemma float_le_strict: "a < b \<Longrightarrow> float_le a b" "b < a \<Longrightarrow> \<not> float_le a b"
  by (simp_all add: float_le_def)

lemma price_recommendation_cases:
  "price_recommendation c mn av t =
     (if float_le c (mn * (105 / 100)) then ''buy_now''
      else if t = ''decreasing'' \<or> float_le av c then ''wait'' else ''good_time'')"
  by (simp add: price_recommendation_def)

text \<open>
  Whenever the maximum of the history is not zero, \<open>calculate_price_trend\<close> returns a
  dictionary whose recommendation follows the three-way rule on the current price, the
  minimum, the unrounded average and the trend: buy_now below 1.05 times the minimum;
  above it, wait when the trend is decreasing or the price is above the average, and
  good_time when the trend is not decreasing and the price is below the average. (Where
  two compared values are equal as exact numbers, the float comparison of the source decides.)
\<close>

lemma calculate_price_trend_recommendation:
  assumes "history \<noteq> []" and "py_max (map pe_price history) \<noteq> 0"
  shows "\<exists>td. calculate_price_trend history product_price = Inr td
           \<and> td_current_price td = Some (case product_price of Some p \<Rightarrow> p | None \<Rightarrow> 0)
           \<and> td_min_price td = Some (py_min (map pe_price history))
           \<and> td_trend td = price_trend_of (map pe_price history)
           \<and> td_recommendation td =
               (if float_le (case product_price of Some p \<Rightarrow> p | None \<Rightarrow> 0)
                     (py_min (map pe_price history) * (105 / 100)) then ''buy_now''
                else if price_trend_of (map pe_price history) = ''decreasing''
                        \<or> float_le (sum_list (map pe_price history) / of_nat (length history))
                             (case product_price of Some p \<Rightarrow> p | None \<Rightarrow> 0)
                     then ''wait''
                else ''good_time'')"
  using assms
  by (simp add: calculate_price_trend_def Let_def price_recommendation_cases)

lemma price_recommendation_rule:
  "c < mn * (105 / 100) \<Longrightarrow> price_recommendation c mn av t = ''buy_now''"
  "mn * (105 / 100) < c \<Longrightarrow> t = ''decreasing'' \<or> av < c \<Longrightarrow> price_recommendation c mn av t = ''wait''"
  "mn * (105 / 100) < c \<Longrightarrow> t \<noteq> ''decreasing'' \<Longrightarrow> c < av \<Longrightarrow>
     price_recommendation c mn av t = ''good_time''"
  by (auto simp: price_recommendation_def float_le_def)

lemma calculate_price_trend_empty:
  "\<exists>td. calculate_price_trend [] product_price = Inr td
        \<and> td_trend td = ''unknown'' \<and> td_recommendation td = ''wait''"
  by (simp add: calculate_price_trend_def)

text \<open>
  Claim C6. For every product with a non-empty 30-day price history the recommendation is
  buy_now, wait or good_time by the three-way rule. The source divides by the maximum
  history price before it computes the recommendation: a history whose prices are all zero
  raises \<open>ZeroDivisionError\<close>, and no recommendation is produced.
\<close>

theorem C6_zero_price_history_raises:
  "calculate_price_trend [\<lparr> pe_price = 0, pe_date = ''2026-01-01T00:00:00'' \<rparr>] (Some 0)
     = Inl ZeroDivisionError"
  by (simp add: calculate_price_trend_def Let_def)

subsection \<open>Hybrid ranking\<close>

lemma map_of_add_semantic:
  "map_of (add_semantic a acc) k =
     (if k = sh_product_id a
      then Some (a, (case sh_similarity_score a of Some s \<Rightarrow> s | None \<Rightarrow> 1 / 2) * (7 / 10))
      else map_of acc k)"
  by (simp add: add_semantic_def update_conv')

lemma map_of_add_traditional:
  "map_of (add_traditional a acc) k =
     (if k = sh_product_id a
      then (case map_of acc k of Some (hit, sc) \<Rightarrow> Some (hit, sc + 3 / 10)
            | None \<Rightarrow> Some (a, 3 / 10))
      else map_of acc k)"
  by (simp add: add_traditional_def update_conv' split: option.splits)

lemma keys_add_semantic: "fst ` set (add_semantic a acc) = insert (sh_product_id a) (fst ` set acc)"
  by (simp add: add_semantic_def dom_update)

lemma keys_add_traditional: "fst ` set (add_traditional a acc) = insert (sh_product_id a) (fst ` set acc)"
  by (simp add: add_traditional_def dom_update split: option.splits)

lemma distinct_add_semantic: "distinct (map fst acc) \<Longrightarrow> distinct (map fst (add_semantic a acc))"
  by (simp add: add_semantic_def distinct_update)

lemma distinct_add_traditional: "distinct (map fst acc) \<Longrightarrow> distinct (map fst (add_traditional a acc))"
  by (simp add: add_traditional_def distinct_update split: option.splits)

lemma fold_sem_keys: "fst ` set (fold add_semantic sem acc) = sh_product_id ` set sem \<union> fst ` set acc"
  by (induction sem arbitrary: acc) (auto simp: keys_add_semantic)

lemma fold_trad_keys: "fst ` set (fold add_traditional trad acc) = sh_product_id ` set trad \<union> fst ` set acc"
  by (induction trad arbitrary: acc) (auto simp: keys_add_traditional)

lemma fold_sem_distinct: "distinct (map fst acc) \<Longrightarrow> distinct (map fst (fold add_semantic sem acc))"
  by (induction sem arbitrary: acc) (auto simp: distinct_add_semantic)

lemma fold_trad_distinct: "distinct (map fst acc) \<Longrightarrow> distinct (map fst (fold add_traditional trad acc))"
  by (induction trad arbitrary: acc) (auto simp: distinct_add_traditional)

lemma fold_sem_other: "k \<notin> sh_product_id ` set sem \<Longrightarrow> map_of (fold add_semantic sem acc) k = map_of acc k"
  by (induction sem arbitrary: acc) (auto simp: map_of_add_semantic)

lemma fold_sem_hit:
  "distinct (map sh_product_id sem) \<Longrightarrow> h \<in> set sem \<Longrightarrow>
   map_of (fold add_semantic sem acc) (sh_product_id h)
     = Some (h, (case sh_similarity_score h of Some s \<Rightarrow> s | None \<Rightarrow> 1 / 2) * (7 / 10))"
proof (induction sem arbitrary: acc)
  case Nil then show ?case by simp
next
  case (Cons a sem)
  show ?case
  proof (cases "h = a")
    case True
    with Cons.prems have "sh_product_id h \<notin> sh_product_id ` set sem" by auto
    then show ?thesis using True by (simp add: fold_sem_other map_of_add_semantic)
  next
    case False
    with Cons show ?thesis by auto
  qed
qed

lemma fold_trad_other: "k \<notin> sh_product_id ` set trad \<Longrightarrow> map_of (fold add_traditional trad acc) k = map_of acc k"
  by (induction trad arbitrary: acc) (auto simp: map_of_add_traditional)

lemma fold_trad_hit:
  "distinct (map sh_product_id trad) \<Longrightarrow> t \<in> set trad \<Longrightarrow>
   map_of (fold add_traditional trad acc) (sh_product_id t)
     = (case map_of acc (sh_product_id t) of Some (hit, sc) \<Rightarrow> Some (hit, sc + 3 / 10)
        | None \<Rightarrow> Some (t, 3 / 10))"
proof (induction trad arbitrary: acc)
  case Nil then show ?case by simp
next
  case (Cons a trad)
  show ?case
  proof (cases "t = a")
    case True
    with Cons.prems have "sh_product_id t \<notin> sh_product_id ` set trad" by auto
    then show ?thesis using True by (auto simp: fold_trad_other map_of_add_traditional split: option.splits)
  next
    case False
    with Cons.prems have ne: "sh_product_id a \<noteq> sh_product_id t" by auto
    have "map_of (add_traditional a acc) (sh_product_id t) = map_of acc (sh_product_id t)"
      using ne by (simp add: map_of_add_traditional)
    with Cons False show ?thesis by auto
  qed
qed

lemma sort_desc_sorted: "sorted_wrt (\<lambda>a b. snd b \<le> snd a) (sort_key (\<lambda>x. - snd x) (xs :: scored_hit list))"
proof -
  have "sorted (map (\<lambda>x. - snd x) (sort_key (\<lambda>x. - snd x) xs))" by (rule sorted_sort_key)
  then show ?thesis by (simp add: sorted_wrt_map)
qed

lemma combined_dict_keys:
  "fst ` set (combined_dict sem trad) = sh_product_id ` set sem \<union> sh_product_id ` set trad"
  by (auto simp: combined_dict_def fold_trad_keys fold_sem_keys)

lemma combined_dict_distinct: "distinct (map fst (combined_dict sem trad))"
  by (simp add: combined_dict_def fold_trad_distinct fold_sem_distinct)

lemma combined_dict_semantic_only:
  assumes "distinct (map sh_product_id sem)" "h \<in> set sem" "sh_similarity_score h = Some s"
    "sh_product_id h \<notin> sh_product_id ` set trad"
  shows "map_of (combined_dict sem trad) (sh_product_id h) = Some (h, (7 / 10) * s)"
  using assms by (simp add: combined_dict_def fold_trad_other fold_sem_hit)

lemma combined_dict_traditional_only:
  assumes "distinct (map sh_product_id trad)" "t \<in> set trad"
    "sh_product_id t \<notin> sh_product_id ` set sem"
  shows "map_of (combined_dict sem trad) (sh_product_id t) = Some (t, 3 / 10)"
  using assms by (simp add: combined_dict_def fold_trad_hit fold_sem_other)

lemma combined_dict_both:
  assumes "distinct (map sh_product_id sem)" "distinct (map sh_product_id trad)"
    "h \<in> set sem" "sh_similarity_score h = Some s" "t \<in> set trad"
    "sh_product_id t = sh_product_id h"
  shows "map_of (combined_dict sem trad) (sh_product_id h) = Some (h, (7 / 10) * s + 3 / 10)"
proof -
  have "map_of (combined_dict sem trad) (sh_product_id t)
          = (case map_of (fold add_semantic sem []) (sh_product_id t) of
               Some (hit, sc) \<Rightarrow> Some (hit, sc + 3 / 10) | None \<Rightarrow> Some (t, 3 / 10))"
    unfolding combined_dict_def using assms(2,5) by (rule fold_trad_hit)
  moreover have "map_of (fold add_semantic sem []) (sh_product_id h) = Some (h, s * (7 / 10))"
    using fold_sem_hit [OF assms(1,3), of "[]"] assms(4) by simp
  ultimately show ?thesis using assms(6) by simp
qed

text \<open>
  Claim C3. When each leg lists a product at most once, the fused dictionary holds exactly
  the union of the two legs' product ids, each once; a semantic hit with similarity \<open>s\<close>
  scores \<open>0.7 * s\<close>, plus \<open>0.3\<close> when the product is also a traditional hit; a
  product found by the traditional leg alone scores \<open>0.3\<close>; and the ranking is the first
  \<open>L\<close> entries of a permutation of the fused entries that is sorted by score,
  descending.
\<close>

theorem C3_hybrid_fusion:
  assumes "distinct (map sh_product_id sem)" and "distinct (map sh_product_id trad)"
    and "0 \<le> L"
  shows "fst ` set (combined_dict sem trad) = sh_product_id ` set sem \<union> sh_product_id ` set trad
    \<and> distinct (map fst (combined_dict sem trad))
    \<and> (\<forall>h \<in> set sem. \<forall>s. sh_similarity_score h = Some s \<longrightarrow>
           map_of (combined_dict sem trad) (sh_product_id h)
             = Some (h, if sh_product_id h \<in> sh_product_id ` set trad
                        then (7 / 10) * s + 3 / 10 else (7 / 10) * s))
    \<and> (\<forall>t \<in> set trad. sh_product_id t \<notin> sh_product_id ` set sem \<longrightarrow>
           map_of (combined_dict sem trad) (sh_product_id t) = Some (t, 3 / 10))
    \<and> combine_and_rank sem trad L
           = take (nat L) (sort_key (\<lambda>x. - snd x) (map snd (combined_dict sem trad)))
    \<and> mset (sort_key (\<lambda>x. - snd x) (map snd (combined_dict sem trad)))
           = mset (map snd (combined_dict sem trad))
    \<and> sorted_wrt (\<lambda>a b. snd b \<le> snd a)
          (sort_key (\<lambda>x. - snd x) (map snd (combined_dict sem trad)))
    \<and> sorted_wrt (\<lambda>a b. snd b \<le> snd a) (combine_and_rank sem trad L)
    \<and> length (combine_and_rank sem trad L)
           = min (nat L) (card (sh_product_id ` set sem \<union> sh_product_id ` set trad))"
proof -
  have keys: "fst ` set (combined_dict sem trad) = sh_product_id ` set sem \<union> sh_product_id ` set trad"
    by (rule combined_dict_keys)
  have dist: "distinct (map fst (combined_dict sem trad))" by (rule combined_dict_distinct)
  have semantic: "\<forall>h \<in> set sem. \<forall>s. sh_similarity_score h = Some s \<longrightarrow>
           map_of (combined_dict sem trad) (sh_product_id h)
             = Some (h, if sh_product_id h \<in> sh_product_id ` set trad
                        then (7 / 10) * s + 3 / 10 else (7 / 10) * s)"
  proof (intro ballI allI impI)
    fix h s assume h: "h \<in> set sem" and s: "sh_similarity_score h = Some s"
    show "map_of (combined_dict sem trad) (sh_product_id h)
             = Some (h, if sh_product_id h \<in> sh_product_id ` set trad
                        then (7 / 10) * s + 3 / 10 else (7 / 10) * s)"
    proof (cases "sh_product_id h \<in> sh_product_id ` set trad")
      case True
      then obtain t where "t \<in> set trad" "sh_product_id t = sh_product_id h" by auto
      then show ?thesis
        using combined_dict_both [OF assms(1,2) h s] True by simp
    next
      case False
      then show ?thesis using combined_dict_semantic_only [OF assms(1) h s] by simp
    qed
  qed
  have traditional: "\<forall>t \<in> set trad. sh_product_id t \<notin> sh_product_id ` set sem \<longrightarrow>
           map_of (combined_dict sem trad) (sh_product_id t) = Some (t, 3 / 10)"
    using assms(2) by (auto simp: combined_dict_traditional_only)
  have rank: "combine_and_rank sem trad L
           = take (nat L) (sort_key (\<lambda>x. - snd x) (map snd (combined_dict sem trad)))"
    using assms(3) by (simp add: combine_and_rank_def py_prefix_def)
  have perm: "mset (sort_key (\<lambda>x. - snd x) (map snd (combined_dict sem trad)))
           = mset (map snd (combined_dict sem trad))" by simp
  have srt: "sorted_wrt (\<lambda>a b. snd b \<le> snd a)
               (sort_key (\<lambda>x. - snd x) (map snd (combined_dict sem trad)))"
    by (rule sort_desc_sorted)
  have srt': "sorted_wrt (\<lambda>a b. snd b \<le> snd a) (combine_and_rank sem trad L)"
    unfolding rank using srt by (rule sorted_wrt_take)
  have "length (combined_dict sem trad) = card (fst ` set (combined_dict sem trad))"
    using dist by (metis distinct_card length_map set_map)
  then have len: "length (combine_and_rank sem trad L)
           = min (nat L) (card (sh_product_id ` set sem \<union> sh_product_id ` set trad))"
    unfolding rank by (simp add: keys min.commute)
  from keys dist semantic traditional rank perm srt srt' len show ?thesis by blast
qed

theorem C3_hybrid_fusion_witness:
  "distinct (map sh_product_id ex_sem) \<and> distinct (map sh_product_id ex_trad) \<and> (0::int) \<le> 2
   \<and> map (\<lambda>x. (sh_product_id (fst x), snd x)) (combine_and_rank ex_sem ex_trad 2)
        = [(1, 43 / 50), (2, 63 / 100)]
   \<and> sorted_wrt (\<lambda>a b. snd b \<le> snd a) (combine_and_rank ex_sem ex_trad 2)
   \<and> length (combine_and_rank ex_sem ex_trad 2) = 2"
proof -
  have d1: "distinct (map sh_product_id ex_sem)" by (simp add: ex_sem_def)
  have d2: "distinct (map sh_product_id ex_trad)" by (simp add: ex_trad_def)
  have l: "(0::int) \<le> 2" by simp
  note th = C3_hybrid_fusion [OF d1 d2 l]
  have v: "map (\<lambda>x. (sh_product_id (fst x), snd x)) (combine_and_rank ex_sem ex_trad 2)
             = [(1, 43 / 50), (2, 63 / 100)]"
    by (simp add: combine_and_rank_def py_prefix_def combined_dict_def ex_sem_def ex_trad_def
        add_semantic_def add_traditional_def)
  have c: "card (sh_product_id ` set ex_sem \<union> sh_product_id ` set ex_trad) = 3"
    by (simp add: ex_sem_def ex_trad_def)
  from th have "length (combine_and_rank ex_sem ex_trad 2)
                  = min (nat 2) (card (sh_product_id ` set ex_sem \<union> sh_product_id ` set ex_trad))"
    by blast
  with c have len: "length (combine_and_rank ex_sem ex_trad 2) = 2" by simp
  from th have s: "sorted_wrt (\<lambda>a b. snd b \<le> snd a) (combine_and_rank ex_sem ex_trad 2)"
    by blast
  from d1 d2 l v s len show ?thesis by blast
qed

subsection \<open>Rounding and EMI schedules\<close>

lemma round_nearest_bound: "\<bar>of_int (round_nearest x) - x\<bar> \<le> 1 / 2"
  unfolding round_nearest_def Let_def
  using of_int_floor_le [of x] floor_correct [of x]
  by (auto simp: abs_if; linarith)

lemma py_round2_lower: "x - 1 / 200 \<le> py_round x 2"
proof -
  have "\<bar>of_int (round_nearest (x * 100)) - x * 100\<bar> \<le> 1 / 2" by (rule round_nearest_bound)
  then have "x * 100 - 1 / 2 \<le> of_int (round_nearest (x * 100))" by linarith
  then show ?thesis by (simp add: py_round_def field_simps)
qed

lemma py_round2_upper: "py_round x 2 \<le> x + 1 / 200"
proof -
  have "\<bar>of_int (round_nearest (x * 100)) - x * 100\<bar> \<le> 1 / 2" by (rule round_nearest_bound)
  then have "of_int (round_nearest (x * 100)) \<le> x * 100 + 1 / 2" by linarith
  then show ?thesis by (simp add: py_round_def field_simps)
qed


lemma annuity_margin:
  assumes "1 \<le> P"
  shows "P + 3 / 200 \<le> annuity P (12 / 12 / 100) 3 * 3"
    and "P + 6 / 200 \<le> annuity P (13 / 12 / 100) 6 * 6"
    and "P + 9 / 200 \<le> annuity P (14 / 12 / 100) 9 * 9"
    and "P + 12 / 200 \<le> annuity P (15 / 12 / 100) 12 * 12"
    and "P + 18 / 200 \<le> annuity P (16 / 12 / 100) 18 * 18"
    and "P + 24 / 200 \<le> annuity P (17 / 12 / 100) 24 * 24"
  using assms by (simp_all add: annuity_def power_divide)

lemma regular_emi_plan_eq:
  assumes "months \<in> set default_tenures"
  shows "regular_emi_plan price months =
     Inr \<lparr> tenure_months = months,
           emi_per_month = py_round (annuity price (interest_rates months / 12 / 100) (nat months)) 2,
           total_amount = py_round (annuity price (interest_rates months / 12 / 100) (nat months) * of_int months) 2,
           total_interest = py_round (annuity price (interest_rates months / 12 / 100) (nat months) * of_int months - price) 2,
           interest_rate_annual = interest_rates months,
           processing_fee = 199,
           plan_type = ''regular_emi'',
           total_payable = None \<rparr>"
  using assms
  by (auto simp: default_tenures_def regular_emi_plan_def interest_rates_def annuity_def Let_def power_divide)


lemma plans_loop_map: "(\<forall>m \<in> set ms. \<exists>p. f m = Inr p) \<Longrightarrow> plans_loop f ms = Inr (map (\<lambda>m. projr (f m)) ms)"
  by (induction ms) auto

lemma no_cost_emi_plan_eq:
  assumes "months \<noteq> 0"
  shows "no_cost_emi_plan price months =
     Inr \<lparr> tenure_months = months,
           emi_per_month = py_round (price / of_int months) 2,
           total_amount = py_round price 2,
           total_interest = 0,
           interest_rate_annual = 0,
           processing_fee = 199,
           plan_type = ''no_cost_emi'',
           total_payable = Some (py_round (price + 199) 2) \<rparr>"
  using assms by (simp add: no_cost_emi_plan_def Let_def)

lemma calculate_emi_plans_default:
  "calculate_emi_plans price default_tenures
     = map (\<lambda>m. projr (regular_emi_plan price m)) default_tenures"
proof -
  have "\<forall>m \<in> set default_tenures. \<exists>p. regular_emi_plan price m = Inr p"
    using regular_emi_plan_eq by blast
  then show ?thesis by (simp add: calculate_emi_plans_def plans_loop_map)
qed

lemma calculate_no_cost_emi_default:
  "calculate_no_cost_emi price default_no_cost_tenures
     = map (\<lambda>m. projr (no_cost_emi_plan price m)) default_no_cost_tenures"
proof -
  have "\<forall>m \<in> set default_no_cost_tenures. \<exists>p. no_cost_emi_plan price m = Inr p"
    using no_cost_emi_plan_eq by (auto simp: default_no_cost_tenures_def)
  then show ?thesis by (simp add: calculate_no_cost_emi_def plans_loop_map)
qed

lemma regular_emi_covers_principal:
  assumes "1 \<le> price" "months \<in> set default_tenures"
  shows "price \<le> py_round (annuity price (interest_rates months / 12 / 100) (nat months)) 2 * of_int months"
proof -
  let ?e = "annuity price (interest_rates months / 12 / 100) (nat months)"
  have pos: "0 < months" using assms(2) by (auto simp: default_tenures_def)
  have "price + of_int months / 200 \<le> ?e * of_int months"
    using assms(2) annuity_margin [OF assms(1)]
    by (auto simp: default_tenures_def interest_rates_def)
  moreover have "(?e - 1 / 200) * of_int months \<le> py_round ?e 2 * of_int months"
    using py_round2_lower [of ?e] pos by (simp add: mult_right_mono)
  ultimately show ?thesis by (simp add: algebra_simps)
qed

lemma no_cost_emi_rounding:
  assumes "0 < months"
  shows "\<bar>py_round (price / of_int months) 2 * of_int months - price\<bar> \<le> of_int months / 200"
proof -
  let ?e = "price / of_int months"
  have m: "(0::rat) < of_int months" using assms by simp
  have "\<bar>py_round ?e 2 - ?e\<bar> \<le> 1 / 200"
    using py_round2_lower [of ?e] py_round2_upper [of ?e] by linarith
  then have "\<bar>py_round ?e 2 - ?e\<bar> * of_int months \<le> (1 / 200) * of_int months"
    using m by (simp add: mult_right_mono)
  moreover have "\<bar>py_round ?e 2 - ?e\<bar> * of_int months = \<bar>py_round ?e 2 * of_int months - price\<bar>"
  proof -
    have "\<bar>py_round ?e 2 - ?e\<bar> * of_int months = \<bar>(py_round ?e 2 - ?e) * of_int months\<bar>"
      using m by (simp add: abs_mult)
    also have "(py_round ?e 2 - ?e) * of_int months = py_round ?e 2 * of_int months - price"
      using m by (simp add: algebra_simps)
    finally show ?thesis .
  qed
  ultimately show ?thesis by simp
qed


lemma round_nearest_eqI:
  assumes "of_int z - 1 / 2 < x" and "x < of_int z + 1 / 2"
  shows "round_nearest x = z"
proof -
  have fl: "of_int \<lfloor>x\<rfloor> \<le> x" "x < of_int \<lfloor>x\<rfloor> + 1" using floor_correct [of x] by auto
  show ?thesis
  proof (cases "x - of_int \<lfloor>x\<rfloor> < 1 / 2")
    case True
    have "\<lfloor>x\<rfloor> = z"
    proof (rule floor_unique)
      show "of_int z \<le> x"
      proof (rule ccontr)
        assume "\<not> of_int z \<le> x"
        then have "x < of_int z" by simp
        then have "\<lfloor>x\<rfloor> < z" using fl(1) by (metis floor_less_iff)
        then have "of_int \<lfloor>x\<rfloor> + (1::rat) \<le> of_int z" by (metis of_int_1 of_int_add of_int_le_iff zless_imp_add1_zle)
        with True assms(1) show False by linarith
      qed
      show "x < of_int z + 1" using assms(2) by linarith
    qed
    with True show ?thesis by (simp add: round_nearest_def Let_def)
  next
    case False
    then have ge: "1 / 2 \<le> x - of_int \<lfloor>x\<rfloor>" by simp
    have "\<lfloor>x\<rfloor> = z - 1"
    proof (rule floor_unique)
      show "of_int (z - 1) \<le> x" using assms(1) by simp
      show "x < of_int (z - 1) + 1"
      proof (rule ccontr)
        assume "\<not> x < of_int (z - 1) + 1"
        then have "of_int z \<le> x" by simp
        then have "z \<le> \<lfloor>x\<rfloor>" by (simp add: le_floor_iff)
        then have "(of_int z :: rat) \<le> of_int \<lfloor>x\<rfloor>" by simp
        with ge assms(2) show False by linarith
      qed
    qed
    moreover from this ge assms(1) have "1 / 2 < x - of_int \<lfloor>x\<rfloor>" by simp
    ultimately show ?thesis using False by (simp add: round_nearest_def Let_def)
  qed
qed

lemma round_nearest_10000_3: "round_nearest (10000 / 3) = 3333"
  by (rule round_nearest_eqI) simp_all


text \<open>
  Claim C4, as the code has it. For every price the six regular plans carry the tenures
  3, 6, 9, 12, 18, 24 with the annual rates 12, 13, 14, 15, 16, 17 and the monthly
  instalment is the annuity value rounded to two decimals; for a price of at least 1,
  instalment times tenure is at least the price. For every price a no-cost plan has instalment \<open>round(price / n, 2)\<close>, so instalment
  times tenure is within \<open>n / 200\<close> of the price; its total is \<open>round(price, 2)\<close>,
  its interest 0 and its processing fee 199.
\<close>

theorem C4_emi_schedules:
  "map (\<lambda>p. (tenure_months p, interest_rate_annual p)) (calculate_emi_plans price default_tenures)
           = [(3, 12), (6, 13), (9, 14), (12, 15), (18, 16), (24, 17)]
       \<and> (\<forall>p \<in> set (calculate_emi_plans price default_tenures).
             emi_per_month p
               = py_round (annuity price (interest_rate_annual p / 12 / 100) (nat (tenure_months p))) 2
             \<and> (1 \<le> price \<longrightarrow> price \<le> emi_per_month p * of_int (tenure_months p)))
       \<and> map tenure_months (calculate_no_cost_emi price default_no_cost_tenures) = [3, 6, 9, 12]
       \<and> (\<forall>p \<in> set (calculate_no_cost_emi price default_no_cost_tenures).
             emi_per_month p = py_round (price / of_int (tenure_months p)) 2
             \<and> \<bar>emi_per_month p * of_int (tenure_months p) - price\<bar> \<le> of_int (tenure_months p) / 200
             \<and> total_amount p = py_round price 2
             \<and> total_interest p = 0
             \<and> processing_fee p = 199)"
proof -
  have reg: "\<And>m. m \<in> set default_tenures \<Longrightarrow>
      tenure_months (projr (regular_emi_plan price m)) = m
      \<and> interest_rate_annual (projr (regular_emi_plan price m)) = interest_rates m
      \<and> emi_per_month (projr (regular_emi_plan price m))
           = py_round (annuity price (interest_rates m / 12 / 100) (nat m)) 2"
    by (simp add: regular_emi_plan_eq)
  have a: "map (\<lambda>p. (tenure_months p, interest_rate_annual p)) (calculate_emi_plans price default_tenures)
           = [(3, 12), (6, 13), (9, 14), (12, 15), (18, 16), (24, 17)]"
  proof -
    have "map (\<lambda>p. (tenure_months p, interest_rate_annual p)) (calculate_emi_plans price default_tenures)
            = map (\<lambda>m. (m, interest_rates m)) default_tenures"
      unfolding calculate_emi_plans_default using reg by (simp add: comp_def)
    then show ?thesis by (simp add: default_tenures_def interest_rates_def)
  qed
  have b: "\<forall>p \<in> set (calculate_emi_plans price default_tenures).
             emi_per_month p
               = py_round (annuity price (interest_rate_annual p / 12 / 100) (nat (tenure_months p))) 2
             \<and> (1 \<le> price \<longrightarrow> price \<le> emi_per_month p * of_int (tenure_months p))"
  proof
    fix p assume "p \<in> set (calculate_emi_plans price default_tenures)"
    then obtain m where m: "m \<in> set default_tenures" and p: "p = projr (regular_emi_plan price m)"
      unfolding calculate_emi_plans_default by auto
    show "emi_per_month p
               = py_round (annuity price (interest_rate_annual p / 12 / 100) (nat (tenure_months p))) 2
             \<and> (1 \<le> price \<longrightarrow> price \<le> emi_per_month p * of_int (tenure_months p))"
      using reg [OF m] regular_emi_covers_principal [OF _ m, of price] p by simp
  qed
  have nc: "\<And>m. m \<in> set default_no_cost_tenures \<Longrightarrow> 0 < m"
    by (auto simp: default_no_cost_tenures_def)
  have c: "map tenure_months (calculate_no_cost_emi price default_no_cost_tenures) = [3, 6, 9, 12]"
    unfolding calculate_no_cost_emi_default
    by (simp add: default_no_cost_tenures_def no_cost_emi_plan_eq)
  have d: "\<forall>p \<in> set (calculate_no_cost_emi price default_no_cost_tenures).
             emi_per_month p = py_round (price / of_int (tenure_months p)) 2
             \<and> \<bar>emi_per_month p * of_int (tenure_months p) - price\<bar> \<le> of_int (tenure_months p) / 200
             \<and> total_amount p = py_round price 2
             \<and> total_interest p = 0
             \<and> processing_fee p = 199"
  proof
    fix p assume "p \<in> set (calculate_no_cost_emi price default_no_cost_tenures)"
    then obtain m where m: "m \<in> set default_no_cost_tenures" and p: "p = projr (no_cost_emi_plan price m)"
      unfolding calculate_no_cost_emi_default by auto
    from nc [OF m] have "m \<noteq> 0" by simp
    then show "emi_per_month p = py_round (price / of_int (tenure_months p)) 2
             \<and> \<bar>emi_per_month p * of_int (tenure_months p) - price\<bar> \<le> of_int (tenure_months p) / 200
             \<and> total_amount p = py_round price 2
             \<and> total_interest p = 0
             \<and> processing_fee p = 199"
      using no_cost_emi_rounding [OF nc [OF m], of price] p by (simp add: no_cost_emi_plan_eq)
  qed
  from a b c d show ?thesis by blast
qed

theorem C4_emi_schedules_witness:
  "(1::rat) \<le> 60000
   \<and> calculate_emi_plans 60000 default_tenures \<noteq> []
   \<and> (60000::rat) \<le> emi_per_month (calculate_emi_plans 60000 default_tenures ! 0)
                      * of_int (tenure_months (calculate_emi_plans 60000 default_tenures ! 0))
   \<and> calculate_no_cost_emi 60000 default_no_cost_tenures \<noteq> []
   \<and> total_interest (calculate_no_cost_emi 60000 default_no_cost_tenures ! 0) = 0
   \<and> processing_fee (calculate_no_cost_emi 60000 default_no_cost_tenures ! 0) = 199"
proof -
  have h: "(1::rat) \<le> 60000" by simp
  note th = C4_emi_schedules [of 60000]
  from th have "map (\<lambda>p. (tenure_months p, interest_rate_annual p))
                  (calculate_emi_plans 60000 default_tenures)
                  = [(3, 12), (6, 13), (9, 14), (12, 15), (18, 16), (24, 17)]" by blast
  then have ne: "calculate_emi_plans 60000 default_tenures \<noteq> []" by auto
  then have "calculate_emi_plans 60000 default_tenures ! 0
               \<in> set (calculate_emi_plans 60000 default_tenures)" by simp
  with th h have r: "(60000::rat) \<le> emi_per_month (calculate_emi_plans 60000 default_tenures ! 0)
                      * of_int (tenure_months (calculate_emi_plans 60000 default_tenures ! 0))"
    by blast
  from th have "map tenure_months (calculate_no_cost_emi 60000 default_no_cost_tenures) = [3, 6, 9, 12]"
    by blast
  then have ne': "calculate_no_cost_emi 60000 default_no_cost_tenures \<noteq> []" by auto
  then have "calculate_no_cost_emi 60000 default_no_cost_tenures ! 0
               \<in> set (calculate_no_cost_emi 60000 default_no_cost_tenures)" by simp
  with th have n: "total_interest (calculate_no_cost_emi 60000 default_no_cost_tenures ! 0) = 0
      \<and> processing_fee (calculate_no_cost_emi 60000 default_no_cost_tenures ! 0) = 199"
    by blast
  from h ne r ne' n show ?thesis by blast
qed

text \<open>
  Claim C4 as stated fails twice. No instalment absorbs the rounding: for a price of 100
  over 3 months the no-cost instalment is 33.33 and three of them are 99.99. And for a
  price of 0.10 the regular 3-month instalment rounds to 0.03, three of them are 0.09.
\<close>

lemma round_nearest_emi_3: "round_nearest (1030301 / 303010) = 3"
  by (rule round_nearest_eqI) simp_all

theorem C4_rounding_counterexample:
  "emi_per_month (calculate_no_cost_emi 100 default_no_cost_tenures ! 0) = 3333 / 100
   \<and> tenure_months (calculate_no_cost_emi 100 default_no_cost_tenures ! 0) = 3
   \<and> emi_per_month (calculate_no_cost_emi 100 default_no_cost_tenures ! 0)
       * of_int (tenure_months (calculate_no_cost_emi 100 default_no_cost_tenures ! 0)) = 9999 / 100
   \<and> emi_per_month (calculate_emi_plans (1 / 10) default_tenures ! 0)
       * of_int (tenure_months (calculate_emi_plans (1 / 10) default_tenures ! 0)) = 9 / 100"
proof -
  have "emi_per_month (calculate_no_cost_emi 100 default_no_cost_tenures ! 0) = 3333 / 100"
    by (simp add: calculate_no_cost_emi_def default_no_cost_tenures_def no_cost_emi_plan_def
        py_round_def Let_def round_nearest_10000_3)
  moreover have "tenure_months (calculate_no_cost_emi 100 default_no_cost_tenures ! 0) = 3"
    by (simp add: calculate_no_cost_emi_def default_no_cost_tenures_def no_cost_emi_plan_def Let_def)
  moreover have "emi_per_month (calculate_emi_plans (1 / 10) default_tenures ! 0)
       * of_int (tenure_months (calculate_emi_plans (1 / 10) default_tenures ! 0)) = 9 / 100"
    by (simp add: calculate_emi_plans_def default_tenures_def regular_emi_plan_def interest_rates_def
        py_round_def Let_def power_divide round_nearest_emi_3)
  ultimately show ?thesis by simp
qed

subsection \<open>Buy plan: the best EMI option\<close>

lemma offer_options_types:
  assumes "o_emi_amount off = None"
  shows "set (map payment_type (offer_options price mrp off)) \<subseteq> {''one_time'', ''cashback''}"
proof -
  consider (a) "o_offer_type off = Some ''instant_discount''"
    | (b) "o_offer_type off \<noteq> Some ''instant_discount''" "o_offer_type off = Some ''cashback''"
    | (c) "o_offer_type off \<noteq> Some ''instant_discount''" "o_offer_type off \<noteq> Some ''cashback''"
    by blast
  then show ?thesis
  proof cases
    case a
    then have "map payment_type (offer_options price mrp off) = [''one_time'']"
      by (simp add: offer_options_def Let_def)
    then show ?thesis by simp
  next
    case b
    then have "map payment_type (offer_options price mrp off) = [''cashback'']"
      by (simp add: offer_options_def Let_def)
    then show ?thesis by simp
  next
    case c
    with assms have "offer_options price mrp off = []"
      by (cases "o_emi_months off") (simp_all add: offer_options_def Let_def)
    then show ?thesis by simp
  qed
qed

lemma offer_options_no_emi:
  assumes "o_emi_amount off = None" and "opt \<in> set (offer_options price mrp off)"
  shows "payment_type opt \<noteq> ''emi''"
proof -
  from assms(2) have "payment_type opt \<in> set (map payment_type (offer_options price mrp off))"
    by simp
  with offer_options_types [OF assms(1), of price mrp]
  have "payment_type opt \<in> {''one_time'', ''cashback''}" by blast
  then show ?thesis by auto
qed

lemma offers_loop_no_emi_amount:
  "offers_loop rows = Inr offers \<Longrightarrow> \<forall>x \<in> set offers. o_emi_amount x = None"
proof (induction rows arbitrary: offers)
  case Nil
  then show ?case by simp
next
  case (Cons row rest)
  then show ?case
    by (auto simp: format_offer_def split: sum.splits)
qed

lemma get_card_offers_no_emi_amount: "\<forall>x \<in> set (get_card_offers rows). o_emi_amount x = None"
  using offers_loop_no_emi_amount [of rows]
  by (cases "offers_loop rows") (simp_all add: get_card_offers_def)

lemma total_savings_no_emi:
  "\<forall>opt \<in> set (calculate_total_savings price mrp (get_card_offers rows)). payment_type opt \<noteq> ''emi''"
proof
  fix opt assume "opt \<in> set (calculate_total_savings price mrp (get_card_offers rows))"
  then have "opt = full_price_option price mrp
             \<or> (\<exists>x \<in> set (get_card_offers rows). opt \<in> set (offer_options price mrp x))"
  proof -
    have "set (calculate_total_savings price mrp (get_card_offers rows))
            = set (full_price_option price mrp
                    # concat (map (offer_options price mrp) (get_card_offers rows)))"
      unfolding calculate_total_savings_def by (rule set_sort)
    with \<open>opt \<in> set (calculate_total_savings price mrp (get_card_offers rows))\<close>
    show ?thesis by auto
  qed
  then show "payment_type opt \<noteq> ''emi''"
  proof
    assume "opt = full_price_option price mrp"
    then show ?thesis by (simp add: full_price_option_def Let_def)
  next
    assume "\<exists>x \<in> set (get_card_offers rows). opt \<in> set (offer_options price mrp x)"
    then obtain x where x: "x \<in> set (get_card_offers rows)" "opt \<in> set (offer_options price mrp x)"
      by blast
    from x(1) have "o_emi_amount x = None" using get_card_offers_no_emi_amount by blast
    with x(2) show ?thesis by (rule offer_options_no_emi [rotated])
  qed
qed

lemma best_step_no_emi:
  "payment_type opt \<noteq> ''emi'' \<Longrightarrow> \<exists>b'. best_step opt b = Inr b' \<and> best_emi b' = best_emi b"
  by (auto simp: best_step_def split: option.splits)

lemma find_best_no_emi:
  "\<forall>opt \<in> set opts. payment_type opt \<noteq> ''emi'' \<Longrightarrow>
   \<exists>b'. find_best opts b = Inr b' \<and> best_emi b' = best_emi b"
proof (induction opts arbitrary: b)
  case Nil then show ?case by simp
next
  case (Cons a opts)
  then obtain b1 where b1: "best_step a b = Inr b1" "best_emi b1 = best_emi b"
    using best_step_no_emi [of a b] by auto
  from Cons.IH [of b1] Cons.prems obtain b' where "find_best opts b1 = Inr b'" "best_emi b' = best_emi b1"
    by auto
  with b1 show ?case by simp
qed

lemma best_emi_always_none:
  assumes "create_purchase_plan pid product rows ai summ = Inr plan"
  shows "pp_best_emi plan = None"
proof -
  from assms obtain pr where p: "product = Some pr"
    by (auto simp: create_purchase_plan_def compare_payment_options_def split: option.splits)
  obtain b' where b: "find_best (calculate_total_savings (pr_price pr) (mrp_or_price pr) (get_card_offers rows))
       \<lparr> best_instant_savings = None, best_cashback = None, best_emi = None \<rparr> = Inr b'" "best_emi b' = None"
    using find_best_no_emi [OF total_savings_no_emi, of "pr_price pr" "mrp_or_price pr" rows
        "\<lparr> best_instant_savings = None, best_cashback = None, best_emi = None \<rparr>"] by auto
  with assms p show ?thesis
    by (auto simp: create_purchase_plan_def compare_payment_options_def Let_def)
qed


lemma best_step_emi:
  assumes "payment_type opt = ''emi''" "po_emi_per_month opt \<noteq> None"
    and "\<forall>x. best_emi b = Some x \<longrightarrow> po_emi_per_month x \<noteq> None"
  shows "best_step opt b = Inr (if (case best_emi b of None \<Rightarrow> True | Some x \<Rightarrow> emi_of opt < emi_of x)
                               then b\<lparr>best_emi := Some opt\<rparr> else b)"
  using assms by (auto simp: best_step_def emi_of_def split: option.splits)

lemma find_best_emi_min:
  assumes "\<forall>opt \<in> set opts. payment_type opt = ''emi'' \<longrightarrow> po_emi_per_month opt \<noteq> None"
    and "\<forall>x. best_emi b = Some x \<longrightarrow> po_emi_per_month x \<noteq> None"
  shows "\<exists>b'. find_best opts b = Inr b'
           \<and> (\<forall>x. best_emi b' = Some x \<longrightarrow> po_emi_per_month x \<noteq> None)
           \<and> (best_emi b' = None \<longrightarrow>
                 best_emi b = None \<and> (\<forall>opt \<in> set opts. payment_type opt \<noteq> ''emi''))
           \<and> (\<forall>w. best_emi b' = Some w \<longrightarrow>
                 (best_emi b = Some w \<or> (w \<in> set opts \<and> payment_type w = ''emi''))
                 \<and> (\<forall>opt \<in> set opts. payment_type opt = ''emi'' \<longrightarrow> emi_of w \<le> emi_of opt)
                 \<and> (\<forall>x. best_emi b = Some x \<longrightarrow> emi_of w \<le> emi_of x))"
  using assms
proof (induction opts arbitrary: b)
  case Nil
  then show ?case by simp
next
  case (Cons a opts)
  show ?case
  proof (cases "payment_type a = ''emi''")
    case False
    then obtain b1 where b1: "best_step a b = Inr b1" "best_emi b1 = best_emi b"
      using best_step_no_emi [of a b] by auto
    have "\<forall>x. best_emi b1 = Some x \<longrightarrow> po_emi_per_month x \<noteq> None" using b1 Cons.prems by simp
    from Cons.IH [OF _ this] Cons.prems(1) obtain b' where b': "find_best opts b1 = Inr b'"
      "\<forall>x. best_emi b' = Some x \<longrightarrow> po_emi_per_month x \<noteq> None"
      "best_emi b' = None \<longrightarrow> best_emi b1 = None \<and> (\<forall>opt \<in> set opts. payment_type opt \<noteq> ''emi'')"
      "\<forall>w. best_emi b' = Some w \<longrightarrow>
                 (best_emi b1 = Some w \<or> (w \<in> set opts \<and> payment_type w = ''emi''))
                 \<and> (\<forall>opt \<in> set opts. payment_type opt = ''emi'' \<longrightarrow> emi_of w \<le> emi_of opt)
                 \<and> (\<forall>x. best_emi b1 = Some x \<longrightarrow> emi_of w \<le> emi_of x)"
      by auto
    have "find_best (a # opts) b = Inr b'" using b1 b' by simp
    then show ?thesis using b' b1 False by auto
  next
    case True
    have an: "po_emi_per_month a \<noteq> None" using True Cons.prems(1) by simp
    define b1 where "b1 = (if (case best_emi b of None \<Rightarrow> True | Some x \<Rightarrow> emi_of a < emi_of x)
                               then b\<lparr>best_emi := Some a\<rparr> else b)"
    have st: "best_step a b = Inr b1"
      unfolding b1_def using best_step_emi [OF True an Cons.prems(2)] .
    have inv1: "\<forall>x. best_emi b1 = Some x \<longrightarrow> po_emi_per_month x \<noteq> None"
      using an Cons.prems(2) by (auto simp: b1_def)
    have "\<exists>m. best_emi b1 = Some m \<and> emi_of m \<le> emi_of a
             \<and> (\<forall>x. best_emi b = Some x \<longrightarrow> emi_of m \<le> emi_of x)
             \<and> (m = a \<or> best_emi b = Some m)"
    proof (cases "best_emi b")
      case None
      then show ?thesis by (simp add: b1_def)
    next
      case (Some x)
      show ?thesis
      proof (cases "emi_of a < emi_of x")
        case True
        with Some show ?thesis by (simp add: b1_def)
      next
        case False
        with Some show ?thesis by (simp add: b1_def)
      qed
    qed
    then obtain m where m: "best_emi b1 = Some m" "emi_of m \<le> emi_of a"
      "\<forall>x. best_emi b = Some x \<longrightarrow> emi_of m \<le> emi_of x"
      "m = a \<or> best_emi b = Some m"
      by blast
    from Cons.IH [OF _ inv1] Cons.prems(1) obtain b' where b': "find_best opts b1 = Inr b'"
      "\<forall>x. best_emi b' = Some x \<longrightarrow> po_emi_per_month x \<noteq> None"
      "best_emi b' = None \<longrightarrow> best_emi b1 = None \<and> (\<forall>opt \<in> set opts. payment_type opt \<noteq> ''emi'')"
      "\<forall>w. best_emi b' = Some w \<longrightarrow>
                 (best_emi b1 = Some w \<or> (w \<in> set opts \<and> payment_type w = ''emi''))
                 \<and> (\<forall>opt \<in> set opts. payment_type opt = ''emi'' \<longrightarrow> emi_of w \<le> emi_of opt)
                 \<and> (\<forall>x. best_emi b1 = Some x \<longrightarrow> emi_of w \<le> emi_of x)"
      by auto
    have fb: "find_best (a # opts) b = Inr b'" using st b' by simp
    have nn: "best_emi b' \<noteq> None" using b'(3) m(1) by auto
    have "\<forall>w. best_emi b' = Some w \<longrightarrow>
                 (best_emi b = Some w \<or> (w \<in> set (a # opts) \<and> payment_type w = ''emi''))
                 \<and> (\<forall>opt \<in> set (a # opts). payment_type opt = ''emi'' \<longrightarrow> emi_of w \<le> emi_of opt)
                 \<and> (\<forall>x. best_emi b = Some x \<longrightarrow> emi_of w \<le> emi_of x)"
    proof (intro allI impI)
      fix w assume w: "best_emi b' = Some w"
      with b'(4) have w1: "best_emi b1 = Some w \<or> (w \<in> set opts \<and> payment_type w = ''emi'')"
        and w2: "\<forall>opt \<in> set opts. payment_type opt = ''emi'' \<longrightarrow> emi_of w \<le> emi_of opt"
        and w3: "emi_of w \<le> emi_of m" using m(1) by auto
      show "(best_emi b = Some w \<or> (w \<in> set (a # opts) \<and> payment_type w = ''emi''))
                 \<and> (\<forall>opt \<in> set (a # opts). payment_type opt = ''emi'' \<longrightarrow> emi_of w \<le> emi_of opt)
                 \<and> (\<forall>x. best_emi b = Some x \<longrightarrow> emi_of w \<le> emi_of x)"
        using w1 w2 w3 m True by (auto intro: order_trans)
    qed
    with fb b'(2) nn show ?thesis by auto
  qed
qed

text \<open>
  Claim C7. \<open>best_emi\<close> is the EMI option of least monthly payment among the offer-based
  EMI options (\<open>find_best_emi_min\<close>), but the source has no fallback to the no-cost
  schedules, and \<open>get_card_offers\<close> never fills \<open>emi_amount\<close>, so no offer-based EMI
  option is ever built (\<open>best_emi_always_none\<close>). For a product with a six-month no-cost
  EMI offer the plan has four no-cost schedules and \<open>best_emi\<close> is null.
\<close>

theorem C7_best_emi_null_despite_no_cost_plans:
  "isl (create_purchase_plan 7 (Some ex_product) [ex_no_cost_offer] ''Pay in full.'' ''SUMMARY'') = False
   \<and> pp_best_emi (projr (create_purchase_plan 7 (Some ex_product) [ex_no_cost_offer] ''Pay in full.'' ''SUMMARY'')) = None
   \<and> map tenure_months (pp_no_cost_emi_plans
          (projr (create_purchase_plan 7 (Some ex_product) [ex_no_cost_offer] ''Pay in full.'' ''SUMMARY''))) = [3, 6, 9, 12]
   \<and> map option_name (pp_payment_options
          (projr (create_purchase_plan 7 (Some ex_product) [ex_no_cost_offer] ''Pay in full.'' ''SUMMARY''))) = [''Full Price Payment'']"
  by (simp add: create_purchase_plan_def compare_payment_options_def Let_def ex_product_def
      ex_no_cost_offer_def get_card_offers_def format_offer_def float_if_truthy_def py_isdigit_def
      py_int_def emi_months_of_def is_ascii_digit_def is_superscript_digit_def calculate_total_savings_def offer_options_def full_price_option_def best_step_def
      mrp_or_price_def calculate_no_cost_emi_def default_no_cost_tenures_def no_cost_emi_plan_def)

subsection \<open>Review analysis: trust score and cache\<close>

lemma fold_count_rating:
  "(case fold count_rating rows d k of Some c \<Rightarrow> c | None \<Rightarrow> 0)
     = (case d k of Some c \<Rightarrow> c | None \<Rightarrow> 0) + length (filter (\<lambda>r. rv_rating r = k) rows)"
proof (induction rows arbitrary: d)
  case Nil
  then show ?case by simp
next
  case (Cons r rows)
  have "(case count_rating r d k of Some c \<Rightarrow> c | None \<Rightarrow> 0)
          = (case d k of Some c \<Rightarrow> c | None \<Rightarrow> 0) + (if rv_rating r = k then 1 else 0)"
    by (simp add: count_rating_def)
  with Cons.IH [of "count_rating r d"] show ?case by simp
qed

lemma statistics_nonempty:
  assumes "rows \<noteq> []"
  shows "total_reviews (get_review_statistics rows) = length rows"
    and "verified_purchases (get_review_statistics rows) = length (filter rv_verified rows)"
    and "(case rating_distribution (get_review_statistics rows) 5 of Some c \<Rightarrow> c | None \<Rightarrow> 0)
           = length (filter (\<lambda>r. rv_rating r = 5) rows)"
    and "(case rating_distribution (get_review_statistics rows) 1 of Some c \<Rightarrow> c | None \<Rightarrow> 0)
           = length (filter (\<lambda>r. rv_rating r = 1) rows)"
  using assms by (simp_all add: get_review_statistics_def Let_def fold_count_rating)

lemma trust_score_steps:
  fixes V :: rat
  shows "(let score2 = (if A then 1 / 2 + V * (3 / 10) + 2 / 10
                         else if B then 1 / 2 + V * (3 / 10) - 1 / 10
                         else 1 / 2 + V * (3 / 10))
           in if C then score2 + 1 / 10
              else if D then score2 + 5 / 100 else score2)
          = 1 / 2 + (3 / 10) * V + (if A then 2 / 10 else if B then - (1 / 10) else 0)
              + (if C then 1 / 10 else if D then 5 / 100 else 0)"
  by (cases A; cases B; cases C; cases D) (simp_all add: Let_def)

lemma calculate_trust_score_formula:
  assumes "total_reviews stats \<noteq> 0"
  shows "calculate_trust_score stats reviews
     = Inr (min (max
        (1 / 2
         + (3 / 10) * (of_nat (verified_purchases stats) / of_nat (total_reviews stats))
         + (if (of_nat (case rating_distribution stats 5 of Some c \<Rightarrow> c | None \<Rightarrow> 0)
                  / of_nat (total_reviews stats) :: rat) < 7 / 10
               \<and> (of_nat (case rating_distribution stats 1 of Some c \<Rightarrow> c | None \<Rightarrow> 0)
                  / of_nat (total_reviews stats) :: rat) < 3 / 10 then 2 / 10
            else if 9 / 10 < (of_nat (case rating_distribution stats 5 of Some c \<Rightarrow> c | None \<Rightarrow> 0)
                  / of_nat (total_reviews stats) :: rat) then - (1 / 10) else 0)
         + (if 50 < total_reviews stats then 1 / 10
            else if 20 < total_reviews stats then 5 / 100 else 0)) 0) 1)"
proof -
  have "calculate_trust_score stats reviews
     = Inr (min (max
        (let score2 =
           (if (of_nat (case rating_distribution stats 5 of Some c \<Rightarrow> c | None \<Rightarrow> 0)
                  / of_nat (total_reviews stats) :: rat) < 7 / 10
               \<and> (of_nat (case rating_distribution stats 1 of Some c \<Rightarrow> c | None \<Rightarrow> 0)
                  / of_nat (total_reviews stats) :: rat) < 3 / 10
            then 1 / 2 + (of_nat (verified_purchases stats) / of_nat (total_reviews stats)) * (3 / 10) + 2 / 10
            else if 9 / 10 < (of_nat (case rating_distribution stats 5 of Some c \<Rightarrow> c | None \<Rightarrow> 0)
                  / of_nat (total_reviews stats) :: rat)
            then 1 / 2 + (of_nat (verified_purchases stats) / of_nat (total_reviews stats)) * (3 / 10) - 1 / 10
            else 1 / 2 + (of_nat (verified_purchases stats) / of_nat (total_reviews stats)) * (3 / 10))
         in if 50 < total_reviews stats then score2 + 1 / 10
            else if 20 < total_reviews stats then score2 + 5 / 100 else score2) 0) 1)"
    unfolding calculate_trust_score_def Let_def using assms by (simp only: if_False)
  then show ?thesis unfolding trust_score_steps .
qed

lemma trust_score_refines:
  assumes "rows \<noteq> []"
  shows "calculate_trust_score (get_review_statistics rows) reviews = Inr (trust_score_spec rows)"
proof -
  have n0: "total_reviews (get_review_statistics rows) \<noteq> 0"
    using assms by (simp add: statistics_nonempty)
  show ?thesis
    unfolding calculate_trust_score_formula [OF n0] trust_score_spec_def share_def Let_def
      statistics_nonempty [OF assms] ..
qed

lemma trust_score_bounds:
  "calculate_trust_score stats reviews = Inr t \<Longrightarrow> 0 \<le> t \<and> t \<le> 1"
  by (auto simp: calculate_trust_score_def Let_def split: if_splits)

lemma cache_get_entries:
  "cache_get c k now = (r, c') \<Longrightarrow> entries c' k' = Some e \<Longrightarrow> entries c k' = Some e"
  by (auto simp: cache_get_def split: option.splits if_splits)

lemma cache_get_hit:
  "cache_get c k now = (Some v, c') \<Longrightarrow> c' = c \<and> (\<exists>t. entries c k = Some (v, t) \<and> now - t < ttl c)"
  by (auto simp: cache_get_def split: option.splits if_splits)

lemma cache_get_miss:
  "cache_get c k now = (None, c') \<Longrightarrow> entries c' k = None \<and> ttl c' = ttl c"
  by (auto simp: cache_get_def split: option.splits if_splits)


lemma get_reviews_empty: "get_reviews rows 100 = [] \<longleftrightarrow> rows = []"
proof -
  have "length (sort_key (\<lambda>r. - rv_helpful_count r) rows) = length rows" by simp
  then show ?thesis unfolding get_reviews_def by (cases rows) auto
qed

lemma analyze_reviews_hit:
  assumes "cache_get cache pid t0 = (Some v, c1)"
  shows "analyze_reviews ops cache t0 t1 pid db llm
           = \<lparr> run_result = v, run_cache = c1, run_llm_calls = [] \<rparr>"
  using assms by (simp add: analyze_reviews_def)

lemma analyze_reviews_db_error:
  assumes "cache_get cache pid t0 = (None, c1)"
  shows "analyze_reviews ops cache t0 t1 pid (Inl msg) llm
           = \<lparr> run_result = review_failure pid msg, run_cache = c1, run_llm_calls = [] \<rparr>"
  using assms by (simp add: analyze_reviews_def)

lemma analyze_reviews_no_reviews:
  assumes "cache_get cache pid t0 = (None, c1)"
  shows "analyze_reviews ops cache t0 t1 pid (Inr []) llm
           = \<lparr> run_result = no_reviews_result pid, run_cache = c1, run_llm_calls = [] \<rparr>"
  using assms by (simp add: analyze_reviews_def get_reviews_def)

lemma analyze_reviews_llm_error:
  assumes "cache_get cache pid t0 = (None, c1)" and "rows \<noteq> []"
    and "llm (prompt_of ops rows) = LlmError msg"
  shows "analyze_reviews ops cache t0 t1 pid (Inr rows) llm
           = \<lparr> run_result = review_failure pid msg, run_cache = c1,
               run_llm_calls = [prompt_of ops rows] \<rparr>"
  using assms by (simp add: analyze_reviews_def get_reviews_empty Let_def prompt_of_def)

lemma analyze_reviews_timeout:
  assumes "cache_get cache pid t0 = (None, c1)" and "rows \<noteq> []"
    and "llm (prompt_of ops rows) = LlmTimeout"
  shows "\<exists>r. analyze_reviews ops cache t0 t1 pid (Inr rows) llm
           = \<lparr> run_result = r, run_cache = cache_set c1 pid r t1,
               run_llm_calls = [prompt_of ops rows] \<rparr>
         \<and> rr_success r \<and> rr_trust_score r = Some (trust_score_spec rows)"
  using assms
  by (simp add: analyze_reviews_def get_reviews_empty Let_def prompt_of_def trust_score_refines)

lemma analyze_reviews_text:
  assumes "cache_get cache pid t0 = (None, c1)" and "rows \<noteq> []"
    and "llm (prompt_of ops rows) = LlmText txt"
  shows "\<exists>r. analyze_reviews ops cache t0 t1 pid (Inr rows) llm
           = \<lparr> run_result = r, run_cache = cache_set c1 pid r t1,
               run_llm_calls = [prompt_of ops rows] \<rparr>
         \<and> rr_success r \<and> rr_trust_score r = Some (trust_score_spec rows)"
  using assms
  by (simp add: analyze_reviews_def get_reviews_empty Let_def prompt_of_def trust_score_refines
      split: prod.splits)


lemma trust_score_spec_unit: "0 \<le> trust_score_spec rows \<and> trust_score_spec rows \<le> 1"
  unfolding trust_score_spec_def Let_def by (simp add: min_def max_def)

lemma analyze_reviews_cases:
  obtains (hit) v where "cache_get cache pid t0 = (Some v, cache)"
      "analyze_reviews ops cache t0 t1 pid db llm
         = \<lparr> run_result = v, run_cache = cache, run_llm_calls = [] \<rparr>"
      "\<exists>t. entries cache pid = Some (v, t)"
    | (failed) c1 r where "cache_get cache pid t0 = (None, c1)"
      "analyze_reviews ops cache t0 t1 pid db llm
         = \<lparr> run_result = r, run_cache = c1, run_llm_calls = run_llm_calls (analyze_reviews ops cache t0 t1 pid db llm) \<rparr>"
      "\<not> rr_success r" "rr_trust_score r = None"
      "db = Inr [] \<or> (\<exists>msg. db = Inl msg) \<or> (\<exists>rows msg. db = Inr rows \<and> rows \<noteq> [] \<and> llm (prompt_of ops rows) = LlmError msg)"
    | (analysed) c1 r rows where "cache_get cache pid t0 = (None, c1)"
      "db = Inr rows" "rows \<noteq> []" "\<forall>msg. llm (prompt_of ops rows) \<noteq> LlmError msg"
      "analyze_reviews ops cache t0 t1 pid db llm
         = \<lparr> run_result = r, run_cache = cache_set c1 pid r t1, run_llm_calls = [prompt_of ops rows] \<rparr>"
      "rr_success r" "rr_trust_score r = Some (trust_score_spec rows)"
proof -
  obtain h c1 where g: "cache_get cache pid t0 = (h, c1)" by (cases "cache_get cache pid t0")
  show thesis
  proof (cases h)
    case (Some v)
    with g have "c1 = cache" "\<exists>t. entries cache pid = Some (v, t)" using cache_get_hit [of cache pid t0 v c1] by auto
    with g Some show ?thesis using hit analyze_reviews_hit [of cache pid t0 v cache] by auto
  next
    case None
    note g' = g [unfolded None]
    show ?thesis
    proof (cases db)
      case (Inl msg)
      show ?thesis
        by (rule failed [OF g', of "review_failure pid msg"])
           (simp_all add: Inl analyze_reviews_db_error [OF g'] review_failure_def empty_review_def)
    next
      case (Inr rows)
      show ?thesis
      proof (cases "rows = []")
        case True
        show ?thesis
          by (rule failed [OF g', of "no_reviews_result pid"])
             (simp_all add: Inr True analyze_reviews_no_reviews [OF g'] no_reviews_result_def empty_review_def)
      next
        case False
        show ?thesis
        proof (cases "llm (prompt_of ops rows)")
          case (LlmError msg)
          show ?thesis
            by (rule failed [OF g', of "review_failure pid msg"])
               (simp_all add: Inr False LlmError analyze_reviews_llm_error [where llm = llm and ops = ops, OF g' False LlmError]
                  review_failure_def empty_review_def)
        next
          case LlmTimeout
          from analyze_reviews_timeout [where llm = llm and ops = ops and ?t1.0 = "t1", OF g' False LlmTimeout] obtain r where
            "analyze_reviews ops cache t0 t1 pid (Inr rows) llm
               = \<lparr> run_result = r, run_cache = cache_set c1 pid r t1, run_llm_calls = [prompt_of ops rows] \<rparr>"
            "rr_success r" "rr_trust_score r = Some (trust_score_spec rows)" by blast
          then show ?thesis using analysed [OF g' Inr False, of r] LlmTimeout Inr by simp
        next
          case (LlmText answer)
          from analyze_reviews_text [where llm = llm and ops = ops and ?t1.0 = "t1", OF g' False LlmText] obtain r where
            "analyze_reviews ops cache t0 t1 pid (Inr rows) llm
               = \<lparr> run_result = r, run_cache = cache_set c1 pid r t1, run_llm_calls = [prompt_of ops rows] \<rparr>"
            "rr_success r" "rr_trust_score r = Some (trust_score_spec rows)" by blast
          then show ?thesis using analysed [OF g' Inr False, of r] LlmText Inr by simp
        qed
      qed
    qed
  qed
qed


lemma cache_get_preserves:
  assumes "cache_get c k now = (r, c')" and "\<forall>k v t. entries c k = Some (v, t) \<longrightarrow> P v"
  shows "\<forall>k v t. entries c' k = Some (v, t) \<longrightarrow> P v"
  using assms(2) cache_get_entries [OF assms(1)] by blast

lemma cache_set_preserves:
  assumes "\<forall>k v t. entries c k = Some (v, t) \<longrightarrow> P v" and "P r"
  shows "\<forall>k v t. entries (cache_set c key r now) k = Some (v, t) \<longrightarrow> P v"
  using assms by (auto simp: cache_set_def)

text \<open>
  Claim C5. For a product with at least one review the trust score computed by the
  analyzer equals the formula of the specification over the product's reviews, which lies
  in the unit interval; and if every trust score in the cache lies in the unit interval,
  so does the trust score of whatever \<open>analyze_reviews\<close> returns (cached, fallback or
  language-model result), and so does every trust score in the cache afterwards.
\<close>

theorem C5_trust_score:
  "(rows \<noteq> [] \<longrightarrow>
      calculate_trust_score (get_review_statistics rows) (get_reviews rows 100)
        = Inr (trust_score_spec rows))
   \<and> 0 \<le> trust_score_spec rows \<and> trust_score_spec rows \<le> 1
   \<and> (cache_trust_in_unit cache \<longrightarrow>
        trust_in_unit (run_result (analyze_reviews ops cache t0 t1 pid db llm))
        \<and> cache_trust_in_unit (run_cache (analyze_reviews ops cache t0 t1 pid db llm)))"
proof -
  have a: "rows \<noteq> [] \<longrightarrow>
      calculate_trust_score (get_review_statistics rows) (get_reviews rows 100)
        = Inr (trust_score_spec rows)"
    by (simp add: trust_score_refines)
  have b: "cache_trust_in_unit cache \<longrightarrow>
        trust_in_unit (run_result (analyze_reviews ops cache t0 t1 pid db llm))
        \<and> cache_trust_in_unit (run_cache (analyze_reviews ops cache t0 t1 pid db llm))"
  proof
    assume inv: "cache_trust_in_unit cache"
    then have inv': "\<forall>k v t. entries cache k = Some (v, t) \<longrightarrow> trust_in_unit v"
      by (simp add: cache_trust_in_unit_def)
    show "trust_in_unit (run_result (analyze_reviews ops cache t0 t1 pid db llm))
        \<and> cache_trust_in_unit (run_cache (analyze_reviews ops cache t0 t1 pid db llm))"
    proof (cases rule: analyze_reviews_cases [of cache pid t0 ops t1 db llm])
      case (hit v)
      then show ?thesis using inv inv' by auto
    next
      case (failed c1 r)
      from cache_get_preserves [OF failed(1) inv'] have "cache_trust_in_unit c1"
        by (simp add: cache_trust_in_unit_def)
      moreover have "trust_in_unit r" using failed(4) by (simp add: trust_in_unit_def)
      moreover have "run_result (analyze_reviews ops cache t0 t1 pid db llm) = r"
        "run_cache (analyze_reviews ops cache t0 t1 pid db llm) = c1"
        by (subst failed(2), simp)+
      ultimately show ?thesis by simp
    next
      case (analysed c1 r rows')
      have tr: "trust_in_unit r"
        using analysed(7) trust_score_spec_unit [of rows'] by (simp add: trust_in_unit_def)
      from cache_set_preserves [OF cache_get_preserves [OF analysed(1) inv'] tr]
      have "cache_trust_in_unit (cache_set c1 pid r t1)" by (simp add: cache_trust_in_unit_def)
      with tr analysed(5) show ?thesis by simp
    qed
  qed
  from a b trust_score_spec_unit [of rows] show ?thesis by blast
qed

text \<open>
  Claim C9, as the code has it. For a product with zero reviews and no live cache entry,
  \<open>analyze_reviews\<close> returns the failure dictionary with \<open>success\<close> false, the
  message "No reviews found for this product" and the product id, sends no prompt to the
  language model and leaves no cache entry for the product.
\<close>

theorem C9_zero_reviews:
  assumes "fst (cache_get cache pid t0) = None"
  shows "run_result (analyze_reviews ops cache t0 t1 pid (Inr []) llm) = no_reviews_result pid
     \<and> \<not> rr_success (no_reviews_result pid)
     \<and> rr_message (no_reviews_result pid) = Some ''No reviews found for this product''
     \<and> rr_product_id (no_reviews_result pid) = Some pid
     \<and> run_llm_calls (analyze_reviews ops cache t0 t1 pid (Inr []) llm) = []
     \<and> entries (run_cache (analyze_reviews ops cache t0 t1 pid (Inr []) llm)) pid = None"
proof -
  obtain c1 where g: "cache_get cache pid t0 = (None, c1)"
    using assms by (cases "cache_get cache pid t0") auto
  from cache_get_miss [OF g] have "entries c1 pid = None" by simp
  then show ?thesis
    by (simp add: analyze_reviews_no_reviews [OF g] no_reviews_result_def empty_review_def)
qed

theorem C9_zero_reviews_witness:
  "fst (cache_get review_cache_init 42 0) = None
   \<and> \<not> rr_success (run_result (analyze_reviews ex_ops review_cache_init 0 5 42 (Inr []) ex_llm_timeout))
   \<and> run_llm_calls (analyze_reviews ex_ops review_cache_init 0 5 42 (Inr []) ex_llm_timeout) = []"
proof -
  have h: "fst (cache_get review_cache_init 42 0) = None"
    by (simp add: cache_get_def review_cache_init_def)
  from C9_zero_reviews [OF h, of ex_ops 5 ex_llm_timeout] h show ?thesis by simp
qed

text \<open>
  Claim C9 as stated gives the message as "No reviews found"; the source's message is
  longer.
\<close>

theorem C9_message_counterexample:
  "rr_message (run_result (analyze_reviews ex_ops review_cache_init 0 5 42 (Inr []) ex_llm_timeout))
     = Some ''No reviews found for this product''
   \<and> rr_message (run_result (analyze_reviews ex_ops review_cache_init 0 5 42 (Inr []) ex_llm_timeout))
     \<noteq> Some ''No reviews found''"
  by (simp add: analyze_reviews_def cache_get_def review_cache_init_def get_reviews_def
      no_reviews_result_def empty_review_def)


theorem C5_trust_score_witness:
  "ex_reviews \<noteq> []
   \<and> calculate_trust_score (get_review_statistics ex_reviews) (get_reviews ex_reviews 100)
       = Inr (7 / 10)
   \<and> cache_trust_in_unit review_cache_init
   \<and> trust_in_unit (run_result
         (analyze_reviews ex_ops review_cache_init 0 5 42 (Inr ex_reviews) ex_llm_timeout))"
proof -
  have ne: "ex_reviews \<noteq> []" by (simp add: ex_reviews_def)
  have inv: "cache_trust_in_unit review_cache_init"
    by (simp add: cache_trust_in_unit_def review_cache_init_def)
  have v: "trust_score_spec ex_reviews = 7 / 10"
    by (simp add: trust_score_spec_def share_def ex_reviews_def Let_def)
  note th = C5_trust_score [of ex_reviews review_cache_init ex_ops 0 5 42 "Inr ex_reviews" ex_llm_timeout]
  from th ne v have "calculate_trust_score (get_review_statistics ex_reviews) (get_reviews ex_reviews 100)
       = Inr (7 / 10)" by simp
  moreover from th inv have "trust_in_unit (run_result
         (analyze_reviews ex_ops review_cache_init 0 5 42 (Inr ex_reviews) ex_llm_timeout))" by blast
  ultimately show ?thesis using ne inv by blast
qed

text \<open>
  Claim C10. If every analysis stored in the review cache is successful, then so is every
  analysis stored after a call of \<open>analyze_reviews\<close>, and a result served from the cache
  is successful. On a cache miss the language-model result and the timeout fallback are
  successful and stored under the product's key; the zero-reviews result and the results
  of an exception (database or language model) are failures and leave the product without
  an entry.
\<close>

theorem C10_review_cache_success:
  assumes "cache_all_success cache"
  shows "cache_all_success (run_cache (analyze_reviews ops cache t0 t1 pid db llm))
    \<and> (\<forall>v. fst (cache_get cache pid t0) = Some v \<longrightarrow>
          run_result (analyze_reviews ops cache t0 t1 pid db llm) = v \<and> rr_success v)
    \<and> (fst (cache_get cache pid t0) = None \<longrightarrow>
         (\<forall>rows. db = Inr rows \<and> rows \<noteq> [] \<and> (\<exists>a. llm (prompt_of ops rows) = LlmText a) \<longrightarrow>
            rr_success (run_result (analyze_reviews ops cache t0 t1 pid db llm))
            \<and> entries (run_cache (analyze_reviews ops cache t0 t1 pid db llm)) pid
                = Some (run_result (analyze_reviews ops cache t0 t1 pid db llm), t1))
       \<and> (\<forall>rows. db = Inr rows \<and> rows \<noteq> [] \<and> llm (prompt_of ops rows) = LlmTimeout \<longrightarrow>
            rr_success (run_result (analyze_reviews ops cache t0 t1 pid db llm))
            \<and> entries (run_cache (analyze_reviews ops cache t0 t1 pid db llm)) pid
                = Some (run_result (analyze_reviews ops cache t0 t1 pid db llm), t1))
       \<and> (db = Inr [] \<longrightarrow>
            \<not> rr_success (run_result (analyze_reviews ops cache t0 t1 pid db llm))
            \<and> entries (run_cache (analyze_reviews ops cache t0 t1 pid db llm)) pid = None)
       \<and> ((\<exists>msg. db = Inl msg)
            \<or> (\<exists>rows msg. db = Inr rows \<and> rows \<noteq> [] \<and> llm (prompt_of ops rows) = LlmError msg) \<longrightarrow>
            \<not> rr_success (run_result (analyze_reviews ops cache t0 t1 pid db llm))
            \<and> entries (run_cache (analyze_reviews ops cache t0 t1 pid db llm)) pid = None))"
proof -
  let ?R = "analyze_reviews ops cache t0 t1 pid db llm"
  from assms have inv': "\<forall>k v t. entries cache k = Some (v, t) \<longrightarrow> rr_success v"
    by (simp add: cache_all_success_def)
  show ?thesis
  proof (cases rule: analyze_reviews_cases [of cache pid t0 ops t1 db llm])
    case (hit v)
    from hit(3) inv' have "rr_success v" by blast
    with hit assms show ?thesis by simp
  next
    case (failed c1 r)
    from cache_get_preserves [OF failed(1) inv'] have c: "cache_all_success c1"
      by (simp add: cache_all_success_def)
    have r: "run_result ?R = r" "run_cache ?R = c1" by (subst failed(2), simp)+
    have e: "entries c1 pid = None" using cache_get_miss [OF failed(1)] by simp
    from failed(5) have no: "\<not> (\<exists>rows. db = Inr rows \<and> rows \<noteq> []
        \<and> ((\<exists>a. llm (prompt_of ops rows) = LlmText a) \<or> llm (prompt_of ops rows) = LlmTimeout))"
      by auto
    show ?thesis using c r e no failed(1,3) by auto
  next
    case (analysed c1 r rows')
    from cache_set_preserves [OF cache_get_preserves [OF analysed(1) inv'] analysed(6)]
    have c: "cache_all_success (cache_set c1 pid r t1)" by (simp add: cache_all_success_def)
    have e: "entries (cache_set c1 pid r t1) pid = Some (r, t1)" by (simp add: cache_set_def)
    show ?thesis using c e analysed by auto
  qed
qed

theorem C10_review_cache_success_witness:
  "cache_all_success review_cache_init
   \<and> fst (cache_get review_cache_init 42 0) = None
   \<and> rr_success (run_result
        (analyze_reviews ex_ops review_cache_init 0 5 42 (Inr ex_reviews) ex_llm_timeout))
   \<and> entries (run_cache
        (analyze_reviews ex_ops review_cache_init 0 5 42 (Inr ex_reviews) ex_llm_timeout)) 42
       = Some (run_result
        (analyze_reviews ex_ops review_cache_init 0 5 42 (Inr ex_reviews) ex_llm_timeout), 5)
   \<and> cache_all_success (run_cache
        (analyze_reviews ex_ops review_cache_init 0 5 42 (Inr ex_reviews) ex_llm_timeout))"
proof -
  have inv: "cache_all_success review_cache_init"
    by (simp add: cache_all_success_def review_cache_init_def)
  have miss: "fst (cache_get review_cache_init 42 0) = None"
    by (simp add: cache_get_def review_cache_init_def)
  have ne: "ex_reviews \<noteq> []" by (simp add: ex_reviews_def)
  have to: "ex_llm_timeout (prompt_of ex_ops ex_reviews) = LlmTimeout"
    by (simp add: ex_llm_timeout_def)
  note th = C10_review_cache_success [OF inv, of ex_ops 0 5 42 "Inr ex_reviews" ex_llm_timeout]
  from th miss ne to show ?thesis using inv by blast
qed

subsection \<open>The orchestrator: the ceiling, order and attachment\<close>

lemma run_tasks_gathered:
  assumes "env_ceiling env = None"
  shows "run_tasks env ids cids =
     Inr \<lparr> tr_reviews = analyze_all_reviews env ids, tr_prices = track_all_prices env ids,
           tr_comparison = Some (compare_products env cids),
           tr_buyplan = Some (create_buy_plan env) \<rparr>"
  using assms by (simp add: run_tasks_def)

lemma task_result_cases:
  "task_result st v dflt = Inl e \<Longrightarrow> e = CancelledError \<and> st = Cancelled"
  "task_result st v dflt = Inr x \<Longrightarrow> (st = Finished \<and> x = v) \<or> (st = Pending \<and> x = dflt)"
  by (cases st; simp add: task_result_def)+

lemma run_tasks_error:
  assumes "run_tasks env ids cids = Inl e"
  shows "e = CancelledError"
proof (cases "env_ceiling env")
  case None
  with assms show ?thesis by (simp add: run_tasks_def)
next
  case (Some st)
  with assms show ?thesis
    by (auto simp: run_tasks_def Let_def split: sum.splits dest: task_result_cases(1))
qed

lemma run_tasks_cancelled:
  assumes "env_ceiling env = Some st"
    and "ts_review st = Cancelled \<or> ts_price st = Cancelled
         \<or> ts_comparison st = Cancelled \<or> ts_buyplan st = Cancelled"
  shows "run_tasks env ids cids = Inl CancelledError"
  using assms
  by (cases "ts_review st"; cases "ts_price st"; cases "ts_comparison st"; cases "ts_buyplan st")
     (simp_all add: run_tasks_def task_result_def)

lemma run_tasks_collected:
  assumes "run_tasks env ids cids = Inr results"
  shows "tr_reviews results = analyze_all_reviews env ids \<or> tr_reviews results = Map.empty"
    and "tr_prices results = track_all_prices env ids \<or> tr_prices results = Map.empty"
    and "tr_comparison results = Some (compare_products env cids) \<or> tr_comparison results = None"
    and "tr_buyplan results = Some (create_buy_plan env) \<or> tr_buyplan results = None"
proof -
  have "(tr_reviews results = analyze_all_reviews env ids \<or> tr_reviews results = Map.empty)
      \<and> (tr_prices results = track_all_prices env ids \<or> tr_prices results = Map.empty)
      \<and> (tr_comparison results = Some (compare_products env cids) \<or> tr_comparison results = None)
      \<and> (tr_buyplan results = Some (create_buy_plan env) \<or> tr_buyplan results = None)"
  proof (cases "env_ceiling env")
    case None
    with assms show ?thesis by (auto simp: run_tasks_def)
  next
    case (Some st)
    with assms show ?thesis
      by (cases "ts_review st"; cases "ts_price st"; cases "ts_comparison st"; cases "ts_buyplan st")
         (auto simp: run_tasks_def task_result_def)
  qed
  then show "tr_reviews results = analyze_all_reviews env ids \<or> tr_reviews results = Map.empty"
    and "tr_prices results = track_all_prices env ids \<or> tr_prices results = Map.empty"
    and "tr_comparison results = Some (compare_products env cids) \<or> tr_comparison results = None"
    and "tr_buyplan results = Some (create_buy_plan env) \<or> tr_buyplan results = None"
    by simp_all
qed

lemma orchestrate_body:
  assumes "sr_success sr" and "sr_products sr \<noteq> []" and "1 \<le> top_n"
  shows "orchestrate_recommendation env query top_n sr =
     (case run_tasks env (map p_id (take (nat top_n) (sr_products sr)))
             (take 5 (map p_id (take (nat top_n) (sr_products sr)))) of
        Inl e \<Rightarrow> Inl CancelledError
      | Inr results \<Rightarrow>
          Inr (format_user_friendly_response env query
                 (enrich_products env (take (nat top_n) (sr_products sr))
                    (tr_reviews results) (tr_prices results))
                 (tr_comparison results) (tr_buyplan results)
                 (env_summary env query
                    (map ep_product
                       (enrich_products env (take (nat top_n) (sr_products sr))
                          (tr_reviews results) (tr_prices results))))))"
proof -
  obtain p ps where ps: "sr_products sr = p # ps" using assms(2) by (cases "sr_products sr") auto
  obtain n where n: "nat top_n = Suc n" using assms(3) by (cases "nat top_n") auto
  have pre: "py_prefix top_n (sr_products sr) = take (nat top_n) (sr_products sr)"
    using assms(3) by (simp add: py_prefix_def)
  have first: "py_first (map p_id (take (nat top_n) (sr_products sr))) = Inr (p_id p)"
    by (simp add: py_first_def ps n)
  have t5: "take (min 5 (length (map p_id (take (nat top_n) (sr_products sr)))))
              (map p_id (take (nat top_n) (sr_products sr)))
            = take 5 (map p_id (take (nat top_n) (sr_products sr)))"
    by (simp add: min_def)
  show ?thesis
  proof (cases "run_tasks env (map p_id (take (nat top_n) (sr_products sr)))
                  (take 5 (map p_id (take (nat top_n) (sr_products sr))))")
    case (Inl e)
    then have "e = CancelledError" by (rule run_tasks_error)
    with Inl show ?thesis
      unfolding orchestrate_recommendation_def Let_def pre first t5 using assms(1,2)
      by (simp add: is_exception_def)
  next
    case (Inr results)
    then show ?thesis
      unfolding orchestrate_recommendation_def Let_def pre first t5 using assms(1,2) by simp
  qed
qed

lemma orchestrate_results:
  assumes "sr_success sr" and "sr_products sr \<noteq> []" and "1 \<le> top_n"
    and "run_tasks env (map p_id (take (nat top_n) (sr_products sr)))
           (take 5 (map p_id (take (nat top_n) (sr_products sr)))) = Inr results"
  shows "orchestrate_recommendation env query top_n sr =
     Inr (format_user_friendly_response env query
            (enrich_products env (take (nat top_n) (sr_products sr))
               (tr_reviews results) (tr_prices results))
            (tr_comparison results) (tr_buyplan results)
            (env_summary env query
               (map ep_product
                  (enrich_products env (take (nat top_n) (sr_products sr))
                     (tr_reviews results) (tr_prices results)))))"
  unfolding orchestrate_body [OF assms(1-3)] assms(4) by simp

lemma orchestrate_cancelled:
  assumes "sr_success sr" and "sr_products sr \<noteq> []" and "1 \<le> top_n"
    and "env_ceiling env = Some st"
    and "ts_review st = Cancelled \<or> ts_price st = Cancelled
         \<or> ts_comparison st = Cancelled \<or> ts_buyplan st = Cancelled"
  shows "orchestrate_recommendation env query top_n sr = Inl CancelledError"
  unfolding orchestrate_body [OF assms(1-3)] run_tasks_cancelled [OF assms(4,5)] by simp

lemma orchestrate_response_results:
  assumes "sr_success sr" and "sr_products sr \<noteq> []" and "1 \<le> top_n"
    and "orchestrate_recommendation env query top_n sr = Inr resp"
  shows "\<exists>results. run_tasks env (map p_id (take (nat top_n) (sr_products sr)))
                      (take 5 (map p_id (take (nat top_n) (sr_products sr)))) = Inr results"
  using assms(4) unfolding orchestrate_body [OF assms(1-3)]
  by (cases "run_tasks env (map p_id (take (nat top_n) (sr_products sr)))
                  (take 5 (map p_id (take (nat top_n) (sr_products sr))))") simp_all

text \<open>
  Claim C1 does not hold of the code. When the 120 second ceiling is reached while a task
  is still running, the timeout cancels the task, the handler that was written to collect
  the partial results calls \<open>result()\<close> on it, and the \<open>CancelledError\<close> this raises
  is not an \<open>Exception\<close>: it leaves \<open>orchestrate_recommendation\<close>, and no
  response, successful or not, is returned. Here two products were retrieved, the buy-plan
  wrapper has returned, and the review, price and comparison tasks are cancelled.
\<close>

theorem C1_ceiling_cancellation_escapes:
  "sr_success ex_search
   \<and> map p_id (sr_products ex_search) = [11, 12]
   \<and> env_ceiling ex_env_ceiling
       = Some \<lparr> ts_review = Cancelled, ts_price = Cancelled, ts_comparison = Cancelled,
                ts_buyplan = Finished \<rparr>
   \<and> orchestrate_recommendation ex_env_ceiling ''headphones'' 3 ex_search = Inl CancelledError"
proof -
  have h1: "sr_success ex_search" by (simp add: ex_search_def)
  have ids: "map p_id (sr_products ex_search) = [11, 12]" by (simp add: ex_search_def ex_products_def)
  have h2: "sr_products ex_search \<noteq> []" by (simp add: ex_search_def ex_products_def)
  have c: "env_ceiling ex_env_ceiling
       = Some \<lparr> ts_review = Cancelled, ts_price = Cancelled, ts_comparison = Cancelled,
                ts_buyplan = Finished \<rparr>"
    by (simp add: ex_env_ceiling_def)
  have "orchestrate_recommendation ex_env_ceiling ''headphones'' 3 ex_search = Inl CancelledError"
    by (rule orchestrate_cancelled [OF h1 h2 _ c]) simp_all
  with h1 ids c show ?thesis by simp
qed

theorem C1_ceiling_cancellation_escapes_witness:
  "isl (orchestrate_recommendation ex_env_ceiling ''headphones'' 3 ex_search)"
  using C1_ceiling_cancellation_escapes by simp

lemma enrich_loop_products:
  "map fst (fst (enrich_loop env ps rr store k)) = ps"
  by (induction ps arbitrary: store k) (simp_all add: Let_def)

lemma enrich_loop_reviews:
  "map (\<lambda>x. fst (snd x)) (fst (enrich_loop env ps rr store k))
     = map (\<lambda>p. case rr (p_id p) of Some r \<Rightarrow> r | None \<Rightarrow> empty_review) ps"
  by (induction ps arbitrary: store k) (simp_all add: Let_def)

lemma enrich_products_products:
  "map ep_product (enrich_products env ps rr pr) = ps"
proof -
  have "map ep_product (enrich_products env ps rr pr) = map fst (fst (enrich_loop env ps rr pr 0))"
    by (simp add: enrich_products_def Let_def case_prod_beta comp_def)
  then show ?thesis by (simp add: enrich_loop_products)
qed

lemma enrich_products_reviews:
  "map ep_review_analysis (enrich_products env ps rr pr)
     = map (\<lambda>p. case rr (p_id p) of Some r \<Rightarrow> r | None \<Rightarrow> empty_review) ps"
proof -
  have "map ep_review_analysis (enrich_products env ps rr pr)
          = map (\<lambda>x. fst (snd x)) (fst (enrich_loop env ps rr pr 0))"
    by (simp add: enrich_products_def Let_def case_prod_beta comp_def)
  then show ?thesis by (simp add: enrich_loop_reviews)
qed

lemma format_products_ids: "map fp_id (format_products i es) = map (\<lambda>e. p_id (ep_product e)) es"
  by (induction es arbitrary: i) (simp_all add: format_product_def Let_def)

lemma format_products_original: "map fp_original_data (format_products i es) = es"
  by (induction es arbitrary: i) (simp_all add: format_product_def Let_def)

lemma format_products_rank: "map fp_rank (format_products i es) = [i ..< i + length es]"
  by (induction es arbitrary: i) (simp_all add: format_product_def Let_def upt_rec)

lemma format_products_review:
  "map fp_review_analysis (format_products i es) = map (\<lambda>e. format_review (ep_review_analysis e)) es"
  by (induction es arbitrary: i) (simp_all add: format_product_def Let_def)

lemma format_products_price:
  "map fp_price_tracking (format_products i es)
     = map (\<lambda>e. format_price (ep_product e) (ep_price_analysis e)) es"
  by (induction es arbitrary: i) (simp_all add: format_product_def Let_def)


lemma fold_upd_lookup:
  "fold (\<lambda>(a, b) m. m(a \<mapsto> b)) xs m k = Some v \<Longrightarrow> m k = Some v \<or> (k, v) \<in> set xs"
proof (induction xs arbitrary: m)
  case Nil
  then show ?case by simp
next
  case (Cons x xs)
  obtain a b where x: "x = (a, b)" by (cases x)
  from Cons.prems have "fold (\<lambda>(a, b) m. m(a \<mapsto> b)) xs (m(a \<mapsto> b)) k = Some v"
    unfolding x by (simp only: fold.simps o_apply prod.case)
  from Cons.IH [OF this] have "(m(a \<mapsto> b)) k = Some v \<or> (k, v) \<in> set xs" .
  then show ?case using x by (cases "k = a") auto
qed

lemma results_by_id_mem:
  assumes "results_by_id ids rs k = Some v"
  shows "v \<in> set rs"
proof -
  from assms have "(k, v) \<in> set (zip ids rs)"
    unfolding results_by_id_def using fold_upd_lookup [of "zip ids rs" Map.empty k v] by simp
  then show ?thesis by (rule set_zip_rightD)
qed

lemma fold_upd_distinct:
  "distinct (map fst xs) \<Longrightarrow> fold (\<lambda>(a, b) m. m(a \<mapsto> b)) xs m = m ++ map_of xs"
proof (induction xs arbitrary: m)
  case Nil
  then show ?case by simp
next
  case (Cons x xs)
  obtain a b where x: "x = (a, b)" by (cases x)
  from Cons.prems x have na: "a \<notin> dom (map_of xs)" and d: "distinct (map fst xs)"
    by (auto simp: dom_map_of_conv_image_fst)
  have "fold (\<lambda>(a, b) m. m(a \<mapsto> b)) (x # xs) m
          = fold (\<lambda>(a, b) m. m(a \<mapsto> b)) xs (m(a \<mapsto> b))"
    unfolding x by (simp only: fold.simps o_apply prod.case)
  also have "\<dots> = m(a \<mapsto> b) ++ map_of xs" by (rule Cons.IH [OF d])
  also have "\<dots> = (m ++ map_of xs)(a \<mapsto> b)" using na by (rule map_add_upd_left)
  finally have "fold (\<lambda>(a, b) m. m(a \<mapsto> b)) (x # xs) m = (m ++ map_of xs)(a \<mapsto> b)" .
  then show ?case unfolding x by (simp only: map_of.simps fst_conv snd_conv map_add_upd)
qed

lemma results_by_id_nth:
  assumes "distinct ids" and "length rs = length ids" and "i < length ids"
  shows "results_by_id ids rs (ids ! i) = Some (rs ! i)"
proof -
  have "distinct (map fst (zip ids rs))" using assms(1,2) by (simp add: map_fst_zip)
  then have "results_by_id ids rs = map_of (zip ids rs)"
    unfolding results_by_id_def by (simp add: fold_upd_distinct)
  then show ?thesis using assms by (simp add: map_of_zip_nth)
qed

lemma enrich_price_success: "pa_success (fst (enrich_price env p d k)) = pa_success d"
  by (simp add: enrich_price_def Let_def split: option.splits list.splits prod.splits)


lemma success_at_deref_shared: "pa_success (deref store (Shared i)) = success_at store i"
  by (simp add: deref_def success_at_def empty_price_def split: option.splits)

lemma enrich_loop_success:
  "(\<forall>i. success_at (snd (enrich_loop env ps rr store k)) i = success_at store i)
   \<and> map (\<lambda>x. pa_success (deref (snd (enrich_loop env ps rr store k)) (snd (snd x))))
         (fst (enrich_loop env ps rr store k))
       = map (\<lambda>p. success_at store (p_id p)) ps"
proof (induction ps arbitrary: store k)
  case Nil
  then show ?case by simp
next
  case (Cons p ps)
  define d0 where "d0 = (case store (p_id p) of Some d \<Rightarrow> d | None \<Rightarrow> empty_price)"
  define en where "en = enrich_price env p d0 k"
  define reference where
    "reference = (case store (p_id p) of Some d \<Rightarrow> Shared (p_id p) | None \<Rightarrow> Own (fst en))"
  define store' where
    "store' = (case store (p_id p) of Some d \<Rightarrow> store(p_id p \<mapsto> fst en) | None \<Rightarrow> store)"
  define rest where "rest = enrich_loop env ps rr store' (snd en)"
  define review where "review = (case rr (p_id p) of Some r \<Rightarrow> r | None \<Rightarrow> empty_review)"
  have eq: "enrich_loop env (p # ps) rr store k = ((p, review, reference) # fst rest, snd rest)"
    unfolding rest_def store'_def reference_def review_def en_def d0_def
    by (simp add: Let_def)
  have en_s: "pa_success (fst en) = pa_success d0"
    unfolding en_def by (rule enrich_price_success)
  have s': "\<And>i. success_at store' i = success_at store i"
  proof -
    fix i
    show "success_at store' i = success_at store i"
    proof (cases "store (p_id p)")
      case None
      then show ?thesis by (simp add: store'_def)
    next
      case (Some d)
      then have "d0 = d" by (simp add: d0_def)
      with en_s Some show ?thesis by (simp add: store'_def success_at_def)
    qed
  qed
  from Cons.IH [of store' "snd en"]
  have ih1: "\<And>i. success_at (snd rest) i = success_at store' i"
    and ih2: "map (\<lambda>x. pa_success (deref (snd rest) (snd (snd x)))) (fst rest)
                = map (\<lambda>p. success_at store' (p_id p)) ps"
    unfolding rest_def by auto
  have p1: "\<forall>i. success_at (snd rest) i = success_at store i" using ih1 s' by simp
  have hd: "pa_success (deref (snd rest) reference) = success_at store (p_id p)"
  proof (cases "store (p_id p)")
    case None
    then have "reference = Own (fst en)" "d0 = empty_price" by (simp_all add: reference_def d0_def)
    with en_s None show ?thesis by (simp add: deref_def success_at_def empty_price_def)
  next
    case (Some d)
    then have "reference = Shared (p_id p)" by (simp add: reference_def)
    then show ?thesis using p1 by (simp add: success_at_deref_shared)
  qed
  have tl: "map (\<lambda>x. pa_success (deref (snd rest) (snd (snd x)))) (fst rest)
              = map (\<lambda>p. success_at store (p_id p)) ps"
    using ih2 s' by simp
  show ?case unfolding eq using p1 hd tl by simp
qed

lemma enrich_products_success:
  "map (\<lambda>e. pa_success (ep_price_analysis e)) (enrich_products env ps rr pr)
     = map (\<lambda>p. success_at pr (p_id p)) ps"
proof -
  have "map (\<lambda>e. pa_success (ep_price_analysis e)) (enrich_products env ps rr pr)
          = map (\<lambda>x. pa_success (deref (snd (enrich_loop env ps rr pr 0)) (snd (snd x))))
              (fst (enrich_loop env ps rr pr 0))"
    by (simp add: enrich_products_def Let_def case_prod_beta comp_def)
  then show ?thesis using enrich_loop_success [of env ps rr pr 0] by simp
qed


lemma format_review_available: "rb_available (format_review r) = rr_success r"
  by (simp add: format_review_def Let_def)

lemma format_price_available: "pb_available (format_price p d) = pa_success d"
  by (simp add: format_price_def)

lemma all_reviews_failed:
  assumes "\<forall>i r. env_review env i \<noteq> Returned r"
  shows "\<not> rr_success (case analyze_all_reviews env ids k of Some r \<Rightarrow> r | None \<Rightarrow> empty_review)"
proof (cases "analyze_all_reviews env ids k")
  case None
  then show ?thesis by (simp add: empty_review_def)
next
  case (Some r)
  then have "r \<in> set (map (\<lambda>i. review_of_awaited (env_review env i)) [0..<length ids])"
    unfolding analyze_all_reviews_def by (rule results_by_id_mem)
  then obtain i where "r = review_of_awaited (env_review env i)" by auto
  with assms have "\<not> rr_success r"
    by (cases "env_review env i") (simp_all add: review_of_awaited_def empty_review_def)
  with Some show ?thesis by simp
qed

lemma all_prices_failed:
  assumes "\<forall>i r. env_price env i \<noteq> Returned r"
  shows "\<not> success_at (track_all_prices env ids) k"
proof (cases "track_all_prices env ids k")
  case None
  then show ?thesis by (simp add: success_at_def)
next
  case (Some d)
  then have "d \<in> set (map (\<lambda>i. price_of_awaited (env_price env i)) [0..<length ids])"
    unfolding track_all_prices_def by (rule results_by_id_mem)
  then obtain i where "d = price_of_awaited (env_price env i)" by auto
  with assms have "\<not> pa_success d"
    by (cases "env_price env i") (simp_all add: price_of_awaited_def price_failure_def empty_price_def)
  with Some show ?thesis by (simp add: success_at_def)
qed

lemma comparison_failed:
  assumes "\<forall>r. env_comparison env \<noteq> Returned r"
  shows "\<not> cmp_success (compare_products env ids) \<and> cmp_error (compare_products env ids) \<noteq> None"
  using assms
  by (cases "env_comparison env") (simp_all add: compare_products_def comparison_failure_def)

text \<open>
  When \<open>gather\<close> finishes within the ceiling, the response is successful whatever the
  four analysis tasks do. If every review task times out or raises, every product's review
  section has \<open>available\<close> false; likewise for the price tasks; a comparison that times
  out or raises gives a comparison section with \<open>available\<close> false and an error text; a
  buy plan that times out, or fails with a message, gives no buy plan section.
\<close>

lemma gathered_success_despite_failures:
  assumes "sr_success sr" and "sr_products sr \<noteq> []" and "1 \<le> top_n"
    and "env_ceiling env = None"
  shows "\<exists>resp. orchestrate_recommendation env query top_n sr = Inr resp
     \<and> resp_success resp
     \<and> resp_error resp = None
     \<and> resp_products resp \<noteq> []
     \<and> ((\<forall>i r. env_review env i \<noteq> Returned r) \<longrightarrow>
          (\<forall>fp \<in> set (resp_products resp). \<not> rb_available (fp_review_analysis fp)))
     \<and> ((\<forall>i r. env_price env i \<noteq> Returned r) \<longrightarrow>
          (\<forall>fp \<in> set (resp_products resp). \<not> pb_available (fp_price_tracking fp)))
     \<and> ((\<forall>r. env_comparison env \<noteq> Returned r) \<longrightarrow>
          (\<exists>fc. resp_comparison resp = Some fc \<and> \<not> fc_available fc \<and> fc_error fc \<noteq> None))
     \<and> (env_buyplan env = TimedOut \<or> (\<exists>msg. msg \<noteq> [] \<and> env_buyplan env = Raised msg) \<longrightarrow>
          resp_buy_plan resp = None)"
proof -
  let ?ps = "take (nat top_n) (sr_products sr)"
  let ?ids = "map p_id ?ps"
  let ?rr = "analyze_all_reviews env ?ids"
  let ?pr = "track_all_prices env ?ids"
  let ?es = "enrich_products env ?ps ?rr ?pr"
  define resp where "resp = format_user_friendly_response env query ?es
        (Some (compare_products env (take 5 ?ids))) (Some (create_buy_plan env))
        (env_summary env query (map ep_product ?es))"
  have eq: "orchestrate_recommendation env query top_n sr = Inr resp"
    unfolding resp_def
    using orchestrate_results [OF assms(1-3) run_tasks_gathered [OF assms(4)], of query] by simp
  have prods: "resp_products resp = format_products 1 ?es"
    by (simp add: resp_def format_user_friendly_response_def)
  have ne: "?ps \<noteq> []" using assms(2,3) by (cases "sr_products sr"; cases "nat top_n") auto
  have s: "resp_success resp" "resp_error resp = None"
    by (simp_all add: resp_def format_user_friendly_response_def)
  have ids: "map fp_id (resp_products resp) = ?ids"
  proof -
    have "map fp_id (resp_products resp) = map p_id (map ep_product ?es)"
      unfolding prods format_products_ids by simp
    then show ?thesis unfolding enrich_products_products .
  qed
  have p: "resp_products resp \<noteq> []"
  proof
    assume "resp_products resp = []"
    with ids have "?ids = []" by simp
    with ne show False by simp
  qed
  have r: "(\<forall>i r. env_review env i \<noteq> Returned r) \<longrightarrow>
          (\<forall>fp \<in> set (resp_products resp). \<not> rb_available (fp_review_analysis fp))"
  proof (intro impI ballI)
    fix fp assume fail: "\<forall>i r. env_review env i \<noteq> Returned r" and fp: "fp \<in> set (resp_products resp)"
    from fp have "fp_review_analysis fp \<in> set (map fp_review_analysis (format_products 1 ?es))"
      unfolding prods by simp
    then have "fp_review_analysis fp \<in> set (map (\<lambda>e. format_review (ep_review_analysis e)) ?es)"
      unfolding format_products_review .
    then obtain e where e: "e \<in> set ?es" "fp_review_analysis fp = format_review (ep_review_analysis e)"
      by auto
    define F where "F = (\<lambda>p :: product. case ?rr (p_id p) of Some r \<Rightarrow> r | None \<Rightarrow> empty_review)"
    from e(1) have "ep_review_analysis e \<in> set (map ep_review_analysis ?es)" by simp
    then have "ep_review_analysis e \<in> F ` set ?ps"
      unfolding enrich_products_reviews F_def by simp
    then obtain q where "ep_review_analysis e = F q" by blast
    then have "ep_review_analysis e = (case ?rr (p_id q) of Some r \<Rightarrow> r | None \<Rightarrow> empty_review)"
      by (simp add: F_def)
    with all_reviews_failed [OF fail, of ?ids "p_id q"] have "\<not> rr_success (ep_review_analysis e)"
      by simp
    with e(2) show "\<not> rb_available (fp_review_analysis fp)" by (simp add: format_review_available)
  qed
  have pr: "(\<forall>i r. env_price env i \<noteq> Returned r) \<longrightarrow>
          (\<forall>fp \<in> set (resp_products resp). \<not> pb_available (fp_price_tracking fp))"
  proof (intro impI ballI)
    fix fp assume fail: "\<forall>i r. env_price env i \<noteq> Returned r" and fp: "fp \<in> set (resp_products resp)"
    from fp have "pb_available (fp_price_tracking fp)
        \<in> set (map (\<lambda>bl. pb_available bl) (map fp_price_tracking (format_products 1 ?es)))"
      unfolding prods by simp
    then have "pb_available (fp_price_tracking fp)
        \<in> set (map (\<lambda>e. pa_success (ep_price_analysis e)) ?es)"
      unfolding format_products_price by (simp add: format_price_available)
    then have "pb_available (fp_price_tracking fp) \<in> set (map (\<lambda>p. success_at ?pr (p_id p)) ?ps)"
      unfolding enrich_products_success .
    moreover define G where "G = (\<lambda>p :: product. success_at ?pr (p_id p))"
    ultimately have "pb_available (fp_price_tracking fp) \<in> G ` set ?ps" by simp
    then obtain q where "pb_available (fp_price_tracking fp) = G q" by blast
    then have "pb_available (fp_price_tracking fp) = success_at ?pr (p_id q)" by (simp add: G_def)
    with all_prices_failed [OF fail, of ?ids "p_id q"]
    show "\<not> pb_available (fp_price_tracking fp)" by simp
  qed
  have c: "(\<forall>r. env_comparison env \<noteq> Returned r) \<longrightarrow>
          (\<exists>fc. resp_comparison resp = Some fc \<and> \<not> fc_available fc \<and> fc_error fc \<noteq> None)"
  proof
    assume "\<forall>r. env_comparison env \<noteq> Returned r"
    from comparison_failed [OF this, of "take 5 ?ids"]
    show "\<exists>fc. resp_comparison resp = Some fc \<and> \<not> fc_available fc \<and> fc_error fc \<noteq> None"
      by (simp add: resp_def format_user_friendly_response_def format_comparison_def)
  qed
  have b: "env_buyplan env = TimedOut \<or> (\<exists>msg. msg \<noteq> [] \<and> env_buyplan env = Raised msg) \<longrightarrow>
          resp_buy_plan resp = None"
    by (auto simp: resp_def format_user_friendly_response_def format_buyplan_def create_buy_plan_def)
  have "orchestrate_recommendation env query top_n sr = Inr resp
     \<and> resp_success resp
     \<and> resp_error resp = None
     \<and> resp_products resp \<noteq> []
     \<and> ((\<forall>i r. env_review env i \<noteq> Returned r) \<longrightarrow>
          (\<forall>fp \<in> set (resp_products resp). \<not> rb_available (fp_review_analysis fp)))
     \<and> ((\<forall>i r. env_price env i \<noteq> Returned r) \<longrightarrow>
          (\<forall>fp \<in> set (resp_products resp). \<not> pb_available (fp_price_tracking fp)))
     \<and> ((\<forall>r. env_comparison env \<noteq> Returned r) \<longrightarrow>
          (\<exists>fc. resp_comparison resp = Some fc \<and> \<not> fc_available fc \<and> fc_error fc \<noteq> None))
     \<and> (env_buyplan env = TimedOut \<or> (\<exists>msg. msg \<noteq> [] \<and> env_buyplan env = Raised msg) \<longrightarrow>
          resp_buy_plan resp = None)"
    by (intro conjI) (fact eq s p r pr c b)+
  then show ?thesis by (rule exI)
qed

text \<open>
  A buy plan that fails with an empty error text is shown as an available plan with
  empty fields: the formatter tests the truth of the \<open>error\<close> value only.
\<close>

lemma failed_buy_plan_shown_available:
  assumes "sr_success sr" and "sr_products sr \<noteq> []" and "1 \<le> top_n"
    and "env_ceiling env = None"
    and "env_buyplan env = Raised [] \<or> env_buyplan env = Returned (Inl [])"
  shows "\<exists>resp plan. orchestrate_recommendation env query top_n sr = Inr resp
     \<and> resp_success resp
     \<and> resp_buy_plan resp = Some plan
     \<and> fb_available plan \<and> fb_product_name plan = [] \<and> fb_payment_options plan = []"
proof -
  have "create_buy_plan env = Inl []" using assms(5) by (auto simp: create_buy_plan_def)
  then show ?thesis
    using orchestrate_results [OF assms(1-3) run_tasks_gathered [OF assms(4)], of query]
    by (simp add: format_user_friendly_response_def format_buyplan_def)
qed


end
